theory Spec2Isabelle
  imports Main
begin

section \<open>JavaScript values of the request objects\<close>

text \<open>
  The services receive plain JavaScript objects. A field that holds a string may also be
  missing (\<open>undefined\<close>) or \<open>null\<close>, and the code tells the three apart
  (\<open>||\<close>, \<open>!x\<close>, \<open>_.isUndefined\<close>).
\<close>

datatype jsval = Undefined | Null | Str string

fun truthy :: "jsval \<Rightarrow> bool" where
  "truthy (Str s) = (s \<noteq> [])"
| "truthy Undefined = False"
| "truthy Null = False"

fun isUndefined :: "jsval \<Rightarrow> bool" where
  "isUndefined Undefined = True"
| "isUndefined Null = False"
| "isUndefined (Str s) = False"

text \<open>\<open>a || b\<close> on two such values.\<close>

definition js_or :: "jsval \<Rightarrow> jsval \<Rightarrow> jsval" where
  "js_or a b = (if truthy a then a else b)"

text \<open>
  What a nullable \<open>String?\<close> column holds after the value is written (\<open>undefined\<close> on
  create leaves the column at its default \<open>NULL\<close>), and what a read of the column gives
  back to JavaScript.
\<close>

fun to_column :: "jsval \<Rightarrow> string option" where
  "to_column (Str s) = Some s"
| "to_column Undefined = None"
| "to_column Null = None"

fun of_column :: "string option \<Rightarrow> jsval" where
  "of_column (Some s) = Str s"
| "of_column None = Null"

text \<open>The string of a value that validation has already shown to be a string.\<close>

fun str_of :: "jsval \<Rightarrow> string" where
  "str_of (Str s) = s"
| "str_of Undefined = []"
| "str_of Null = []"

fun is_str :: "jsval \<Rightarrow> bool" where
  "is_str (Str s) = True"
| "is_str Undefined = False"
| "is_str Null = False"

section \<open>The Data Store\<close>

text \<open>
  The four tables of the Prisma schema (\<open>model Role\<close>, \<open>model Phase\<close>,
  \<open>model Resource\<close>, \<open>model ResourcePhase\<close>). Dates are milliseconds.
\<close>

record role =
  role_id :: string
  role_name :: string
  role_fullAccess :: bool
  role_selfObtainable :: bool
  role_created :: nat
  role_createdBy :: string
  role_updated :: nat
  role_updatedBy :: "string option"
  role_legacyId :: "string option"

record phase =
  phase_id :: string
  phase_name :: string
  phase_description :: "string option"
  phase_created :: nat
  phase_createdBy :: string
  phase_updated :: nat
  phase_updatedBy :: "string option"

record resource =
  res_id :: string
  res_challengeId :: "string option"
  res_memberId :: "string option"
  res_memberHandle :: "string option"
  res_roleId :: string
  res_created :: nat
  res_createdBy :: string
  res_updated :: nat
  res_updatedBy :: "string option"
  res_legacyId :: "string option"

record resourcePhase =
  rp_id :: string
  rp_resourceId :: string
  rp_phaseId :: string
  rp_created :: nat
  rp_createdBy :: string
  rp_updated :: nat
  rp_updatedBy :: "string option"

record db =
  roles :: "role list"
  phases :: "phase list"
  resources :: "resource list"
  resourcePhases :: "resourcePhase list"

text \<open>
  The typed errors of \<open>common/errors\<close>, and the error the Prisma client raises itself
  when the database rejects a statement: \<open>P2002\<close> unique constraint, \<open>P2003\<close>
  foreign key constraint, \<open>P2025\<close> record to update or delete not found. A
  \<open>PrismaClientValidationError\<close> is raised for a missing required argument.
  Messages are left out.
\<close>

datatype prisma_code = P2002 | P2003 | P2025

datatype error =
    ValidationError
  | BadRequestError
  | NotFoundError
  | ConflictError
  | PrismaClientKnownRequestError prisma_code
  | PrismaClientValidationError

text \<open>Every call on the Prisma client is recorded, whether it reads or writes.\<close>

datatype call =
    Role_findUnique | Role_create | Role_delete
  | Phase_findUnique
  | Resource_findUnique | Resource_findFirst | Resource_count
  | Resource_create | Resource_update | Resource_delete
  | ResourcePhase_findMany | ResourcePhase_createMany | ResourcePhase_deleteMany

record world =
  store :: db
  calls :: "call list"

text \<open>
  An asynchronous operation either throws or returns, and leaves a world behind in both
  cases: what was written before a throw stays written.
\<close>

type_synonym 'a prisma = "world \<Rightarrow> (error + 'a) \<times> world"

definition ret :: "'a \<Rightarrow> 'a prisma" where
  "ret x w = (Inr x, w)"

definition throw :: "error \<Rightarrow> 'a prisma" where
  "throw e w = (Inl e, w)"

definition await :: "'a prisma \<Rightarrow> ('a \<Rightarrow> 'b prisma) \<Rightarrow> 'b prisma" where
  "await m f w = (case m w of (Inl e, w') \<Rightarrow> (Inl e, w') | (Inr x, w') \<Rightarrow> f x w')"

definition logc :: "call \<Rightarrow> world \<Rightarrow> world" where
  "logc c w = w\<lparr>calls := calls w @ [c]\<rparr>"

text \<open>
  \<open>prisma.$transaction(async (tx) => ...)\<close>: when the callback throws, every write it
  made is rolled back and the error is rethrown; otherwise the writes are committed.
\<close>

definition transaction :: "'a prisma \<Rightarrow> 'a prisma" where
  "transaction body w =
     (case body w of
        (Inl e, w') \<Rightarrow> (Inl e, w'\<lparr>store := store w\<rparr>)
      | (Inr x, w') \<Rightarrow> (Inr x, w'))"

subsection \<open>Reads\<close>

definition role_findUnique :: "string \<Rightarrow> role option prisma" where
  "role_findUnique i w = (Inr (find (\<lambda>r. role_id r = i) (roles (store w))), logc Role_findUnique w)"

definition phase_findUnique :: "string \<Rightarrow> phase option prisma" where
  "phase_findUnique i w = (Inr (find (\<lambda>p. phase_id p = i) (phases (store w))), logc Phase_findUnique w)"

definition resource_findUnique :: "string \<Rightarrow> resource option prisma" where
  "resource_findUnique i w =
     (Inr (find (\<lambda>r. res_id r = i) (resources (store w))), logc Resource_findUnique w)"

text \<open>
  The \<open>where\<close> object of \<open>prisma.resource.findFirst\<close>: \<open>roleId\<close> is always there,
  the other keys only when the code has set them.
\<close>

record resourceWhere =
  where_roleId :: string
  where_challengeId :: "string option"
  where_memberId :: "string option"
  where_id_not :: "string option"

definition matches :: "resourceWhere \<Rightarrow> resource \<Rightarrow> bool" where
  "matches wh r =
     (res_roleId r = where_roleId wh
      \<and> (case where_challengeId wh of None \<Rightarrow> True | Some c \<Rightarrow> res_challengeId r = Some c)
      \<and> (case where_memberId wh of None \<Rightarrow> True | Some m \<Rightarrow> res_memberId r = Some m)
      \<and> (case where_id_not wh of None \<Rightarrow> True | Some i \<Rightarrow> res_id r \<noteq> i))"

definition resource_findFirst :: "resourceWhere \<Rightarrow> resource option prisma" where
  "resource_findFirst wh w = (Inr (find (matches wh) (resources (store w))), logc Resource_findFirst w)"

text \<open>\<open>prisma.resource.count({ where: { roleId } })\<close>\<close>

definition resource_count :: "string \<Rightarrow> nat prisma" where
  "resource_count rid w =
     (Inr (length (filter (\<lambda>r. res_roleId r = rid) (resources (store w)))), logc Resource_count w)"

text \<open>\<open>prisma.resourcePhase.findMany({ where: { resourceId, phaseId: { in: phaseIds } } })\<close>\<close>

definition resourcePhase_findMany :: "string \<Rightarrow> string list \<Rightarrow> resourcePhase list prisma" where
  "resourcePhase_findMany rid pids w =
     (Inr (filter (\<lambda>rp. rp_resourceId rp = rid \<and> rp_phaseId rp \<in> set pids) (resourcePhases (store w))),
      logc ResourcePhase_findMany w)"

text \<open>
  \<open>findUnique\<close> on a resource with \<open>include: { role: true, resourcePhases: { include:
  { phase: true } } }\<close>: the row, its role and the phases of its association rows.
\<close>

record resourceIncluded =
  inc_resource :: resource
  inc_role :: "role option"
  inc_phases :: "phase list"

definition resource_findUnique_include :: "string \<Rightarrow> resourceIncluded option prisma" where
  "resource_findUnique_include i w =
     (Inr (case find (\<lambda>r. res_id r = i) (resources (store w)) of
             None \<Rightarrow> None
           | Some r \<Rightarrow> Some \<lparr>
               inc_resource = r,
               inc_role = find (\<lambda>x. role_id x = res_roleId r) (roles (store w)),
               inc_phases = List.map_filter
                 (\<lambda>rp. find (\<lambda>p. phase_id p = rp_phaseId rp) (phases (store w)))
                 (filter (\<lambda>rp. rp_resourceId rp = i) (resourcePhases (store w)))\<rparr>),
      logc Resource_findUnique w)"

subsection \<open>Writes, with the constraints of the schema\<close>

text \<open>
  \<open>Role\<close>: \<open>id\<close> is the primary key, \<open>name\<close> is \<open>@unique\<close>.
\<close>

text \<open>
  The \<open>data\<close> of \<open>prisma.role.create\<close>: \<open>name\<close> and \<open>createdBy\<close> are required
  \<open>String\<close> columns; \<open>created\<close> is \<open>@default(now())\<close> and \<open>updated\<close> is
  \<open>@updatedAt\<close>, both set to the time \<open>t\<close> of the insert when not given.
\<close>

record roleData =
  rd_id :: string
  rd_name :: jsval
  rd_fullAccess :: bool
  rd_selfObtainable :: bool
  rd_createdBy :: jsval
  rd_updatedBy :: jsval
  rd_legacyId :: jsval

definition role_row :: "nat \<Rightarrow> roleData \<Rightarrow> role" where
  "role_row t d = \<lparr>
     role_id = rd_id d,
     role_name = str_of (rd_name d),
     role_fullAccess = rd_fullAccess d,
     role_selfObtainable = rd_selfObtainable d,
     role_created = t,
     role_createdBy = str_of (rd_createdBy d),
     role_updated = t,
     role_updatedBy = to_column (rd_updatedBy d),
     role_legacyId = to_column (rd_legacyId d)\<rparr>"

definition role_create :: "nat \<Rightarrow> roleData \<Rightarrow> role prisma" where
  "role_create t d w =
     (if \<not> is_str (rd_name d) \<or> \<not> is_str (rd_createdBy d)
      then (Inl PrismaClientValidationError, logc Role_create w)
      else if \<exists>x \<in> set (roles (store w)).
                role_id x = role_id (role_row t d) \<or> role_name x = role_name (role_row t d)
      then (Inl (PrismaClientKnownRequestError P2002), logc Role_create w)
      else (Inr (role_row t d), logc Role_create
              (w\<lparr>store := (store w)\<lparr>roles := roles (store w) @ [role_row t d]\<rparr>\<rparr>)))"

text \<open>
  \<open>Resource.role\<close> is a required relation with no \<open>onDelete\<close>: a role that a resource
  references cannot be deleted.
\<close>

definition role_delete :: "string \<Rightarrow> unit prisma" where
  "role_delete i w =
     (if find (\<lambda>r. role_id r = i) (roles (store w)) = None
      then (Inl (PrismaClientKnownRequestError P2025), logc Role_delete w)
      else if \<exists>x \<in> set (resources (store w)). res_roleId x = i
      then (Inl (PrismaClientKnownRequestError P2003), logc Role_delete w)
      else (Inr (), logc Role_delete
              (w\<lparr>store := (store w)\<lparr>roles := filter (\<lambda>r. role_id r \<noteq> i) (roles (store w))\<rparr>\<rparr>)))"

text \<open>
  \<open>Resource\<close>: \<open>id\<close> is the primary key, \<open>roleId\<close> references \<open>Role.id\<close>. The schema
  declares no unique constraint on \<open>(roleId, challengeId, memberId)\<close>.
\<close>

definition resource_create :: "resource \<Rightarrow> resource prisma" where
  "resource_create row w =
     (if \<exists>x \<in> set (resources (store w)). res_id x = res_id row
      then (Inl (PrismaClientKnownRequestError P2002), logc Resource_create w)
      else if find (\<lambda>r. role_id r = res_roleId row) (roles (store w)) = None
      then (Inl (PrismaClientKnownRequestError P2003), logc Resource_create w)
      else (Inr row, logc Resource_create
              (w\<lparr>store := (store w)\<lparr>resources := resources (store w) @ [row]\<rparr>\<rparr>)))"

text \<open>
  \<open>prisma.resource.update({ where: { id }, data })\<close>, the data given as the change it
  makes to the row; the primary key is not among the updated columns.
\<close>

definition resource_update :: "string \<Rightarrow> (resource \<Rightarrow> resource) \<Rightarrow> resource prisma" where
  "resource_update i f w =
     (case find (\<lambda>r. res_id r = i) (resources (store w)) of
        None \<Rightarrow> (Inl (PrismaClientKnownRequestError P2025), logc Resource_update w)
      | Some old \<Rightarrow>
          if find (\<lambda>r. role_id r = res_roleId (f old)) (roles (store w)) = None
          then (Inl (PrismaClientKnownRequestError P2003), logc Resource_update w)
          else (Inr (f old), logc Resource_update
                  (w\<lparr>store := (store w)\<lparr>resources :=
                      map (\<lambda>r. if res_id r = i then f r else r) (resources (store w))\<rparr>\<rparr>)))"

text \<open>
  \<open>ResourcePhase.resource\<close> is \<open>onDelete: Cascade\<close>: deleting a resource deletes its
  association rows in the same statement.
\<close>

definition resource_delete :: "string \<Rightarrow> unit prisma" where
  "resource_delete i w =
     (if find (\<lambda>r. res_id r = i) (resources (store w)) = None
      then (Inl (PrismaClientKnownRequestError P2025), logc Resource_delete w)
      else (Inr (), logc Resource_delete
              (w\<lparr>store := (store w)\<lparr>
                 resources := filter (\<lambda>r. res_id r \<noteq> i) (resources (store w)),
                 resourcePhases := filter (\<lambda>rp. rp_resourceId rp \<noteq> i) (resourcePhases (store w))\<rparr>\<rparr>)))"

text \<open>
  \<open>ResourcePhase\<close>: \<open>id\<close> is the primary key, \<open>(resourceId, phaseId)\<close> is
  \<open>@@unique\<close>, \<open>resourceId\<close> references \<open>Resource.id\<close> and \<open>phaseId\<close> references
  \<open>Phase.id\<close>. \<open>createMany\<close> is one \<open>INSERT\<close> statement: either every row is
  inserted or none. The database raises a unique violation as the rows go in, and checks the
  foreign keys of the inserted rows at the end of the statement.
\<close>

definition rp_unique_violation :: "db \<Rightarrow> resourcePhase \<Rightarrow> bool" where
  "rp_unique_violation d row =
     (\<exists>x \<in> set (resourcePhases d).
        rp_id x = rp_id row \<or> (rp_resourceId x = rp_resourceId row \<and> rp_phaseId x = rp_phaseId row))"

definition rp_foreign_key_violation :: "db \<Rightarrow> resourcePhase \<Rightarrow> bool" where
  "rp_foreign_key_violation d row =
     (find (\<lambda>r. res_id r = rp_resourceId row) (resources d) = None
      \<or> find (\<lambda>p. phase_id p = rp_phaseId row) (phases d) = None)"

fun insert_rows :: "resourcePhase list \<Rightarrow> db \<Rightarrow> prisma_code + db" where
  "insert_rows [] d = Inr d"
| "insert_rows (row # rows) d =
     (if rp_unique_violation d row then Inl P2002
      else insert_rows rows (d\<lparr>resourcePhases := resourcePhases d @ [row]\<rparr>))"

text \<open>
  The rows as the services hand them to \<open>createMany\<close>: \<open>createdBy\<close> is a required
  \<open>String\<close> column, and the client refuses a value that is not a string before anything is
  sent to the database.
\<close>

record resourcePhaseData =
  rpd_id :: string
  rpd_resourceId :: string
  rpd_phaseId :: string
  rpd_created :: nat
  rpd_createdBy :: jsval
  rpd_updated :: nat
  rpd_updatedBy :: jsval

definition rp_row :: "resourcePhaseData \<Rightarrow> resourcePhase" where
  "rp_row d = \<lparr>
     rp_id = rpd_id d,
     rp_resourceId = rpd_resourceId d,
     rp_phaseId = rpd_phaseId d,
     rp_created = rpd_created d,
     rp_createdBy = str_of (rpd_createdBy d),
     rp_updated = rpd_updated d,
     rp_updatedBy = to_column (rpd_updatedBy d)\<rparr>"

definition resourcePhase_createMany :: "resourcePhaseData list \<Rightarrow> nat prisma" where
  "resourcePhase_createMany data w =
     (if \<exists>d \<in> set data. \<not> is_str (rpd_createdBy d)
      then (Inl PrismaClientValidationError, logc ResourcePhase_createMany w)
      else case insert_rows (map rp_row data) (store w) of
        Inl c \<Rightarrow> (Inl (PrismaClientKnownRequestError c), logc ResourcePhase_createMany w)
      | Inr d \<Rightarrow>
          if \<exists>row \<in> set (map rp_row data). rp_foreign_key_violation d row
          then (Inl (PrismaClientKnownRequestError P2003), logc ResourcePhase_createMany w)
          else (Inr (length data), logc ResourcePhase_createMany (w\<lparr>store := d\<rparr>)))"

text \<open>\<open>prisma.resourcePhase.deleteMany({ where: { resourceId } })\<close>\<close>

definition resourcePhase_deleteMany :: "string \<Rightarrow> nat prisma" where
  "resourcePhase_deleteMany rid w =
     (Inr (length (filter (\<lambda>rp. rp_resourceId rp = rid) (resourcePhases (store w)))),
      logc ResourcePhase_deleteMany
        (w\<lparr>store := (store w)\<lparr>resourcePhases :=
            filter (\<lambda>rp. rp_resourceId rp \<noteq> rid) (resourcePhases (store w))\<rparr>\<rparr>))"

section \<open>What the services take from outside\<close>

text \<open>
  \<open>helper.generateUUID()\<close> and \<open>new Date()\<close> are not the services' own: the
  \<open>n\<close>-th identifier generated during one operation is \<open>generateUUID env n\<close>, whatever
  it is, and the clock reads \<open>now env\<close>. \<open>isUuid\<close> is the test behind Joi's
  \<open>string().uuid()\<close>.
\<close>

record env =
  generateUUID :: "nat \<Rightarrow> string"
  now :: nat
  isUuid :: "string \<Rightarrow> bool"

section \<open>Resource Role Phase Dependency Service\<close>

text \<open>The loop \<open>for (const phaseId of phaseIds)\<close>, collecting the phases it finds.\<close>

primrec find_phases :: "string list \<Rightarrow> phase list prisma" where
  "find_phases [] = ret []"
| "find_phases (phaseId # rest) =
     await (phase_findUnique phaseId) (\<lambda>phase.
       case phase of
         None \<Rightarrow> throw NotFoundError
       | Some p \<Rightarrow> await (find_phases rest) (\<lambda>ps. ret (p # ps)))"

text \<open>\<open>phaseIds\<close> is \<open>None\<close> when the caller passes \<open>undefined\<close> or \<open>null\<close>.\<close>

definition ensureRolePhasesDependency :: "string \<Rightarrow> string list option \<Rightarrow> unit prisma" where
  "ensureRolePhasesDependency roleId phaseIds =
     (case phaseIds of
        None \<Rightarrow> ret ()
      | Some ids \<Rightarrow>
          if length ids = 0 then ret ()
          else await (role_findUnique roleId) (\<lambda>role.
            case role of
              None \<Rightarrow> throw NotFoundError
            | Some r \<Rightarrow> await (find_phases ids) (\<lambda>ps. ret ())))"

text \<open>
  The rows \<open>phaseIds.map(phaseId => ({ id: helper.generateUUID(), ... }))\<close> builds; \<open>n0\<close>
  identifiers were generated earlier in the operation.
\<close>

definition newResourcePhases ::
  "env \<Rightarrow> nat \<Rightarrow> string \<Rightarrow> string list \<Rightarrow> jsval \<Rightarrow> jsval \<Rightarrow> resourcePhaseData list" where
  "newResourcePhases env n0 resourceId phaseIds createdBy updatedBy =
     map (\<lambda>(k, phaseId). \<lparr>
        rpd_id = generateUUID env (n0 + k),
        rpd_resourceId = resourceId,
        rpd_phaseId = phaseId,
        rpd_created = now env,
        rpd_createdBy = createdBy,
        rpd_updated = now env,
        rpd_updatedBy = updatedBy\<rparr>) (enumerate 0 phaseIds)"

text \<open>
  \<open>createResourcePhases(resourceId, phaseIds, userId)\<close>. Nothing runs in a transaction
  here. The \<open>include: { role: true }\<close> of the first read is not used afterwards.
\<close>

definition createResourcePhases ::
  "env \<Rightarrow> string \<Rightarrow> string list option \<Rightarrow> jsval \<Rightarrow> phase list prisma" where
  "createResourcePhases env resourceId phaseIds userId =
     (case phaseIds of
        None \<Rightarrow> ret []
      | Some ids \<Rightarrow>
          if length ids = 0 then ret []
          else await (resource_findUnique resourceId) (\<lambda>resource.
            case resource of
              None \<Rightarrow> throw NotFoundError
            | Some res \<Rightarrow>
                await (find_phases ids) (\<lambda>phases.
                await (resourcePhase_findMany resourceId ids) (\<lambda>existingResourcePhases.
                  if length existingResourcePhases > 0 then throw ConflictError
                  else
                    await (ensureRolePhasesDependency (res_roleId res) (Some ids)) (\<lambda>u.
                    await (resourcePhase_createMany
                             (newResourcePhases env 0 resourceId ids userId userId)) (\<lambda>n.
                    ret phases))))))"

section \<open>Resource Service\<close>

text \<open>
  The object given to \<open>createResource\<close>. \<open>in_phases\<close> is \<open>None\<close> when the key is
  missing; \<open>in_created\<close> and \<open>in_updated\<close> are numbers of milliseconds when given,
  which \<open>Joi.date()\<close> accepts.
\<close>

record resourceInput =
  in_id :: jsval
  in_challengeId :: jsval
  in_memberId :: jsval
  in_memberHandle :: jsval
  in_roleId :: jsval
  in_created :: "nat option"
  in_createdBy :: jsval
  in_updated :: "nat option"
  in_updatedBy :: jsval
  in_legacyId :: jsval
  in_phases :: "string list option"

text \<open>\<open>x ? new Date(x) : new Date()\<close>: the number \<open>0\<close> is falsy.\<close>

definition date_or_now :: "env \<Rightarrow> nat option \<Rightarrow> nat" where
  "date_or_now env x = (case x of None \<Rightarrow> now env | Some t \<Rightarrow> if t \<noteq> 0 then t else now env)"

definition buildDBResource :: "env \<Rightarrow> resourceInput \<Rightarrow> resource" where
  "buildDBResource env resource = \<lparr>
     res_id = str_of (in_id resource),
     res_challengeId = to_column (in_challengeId resource),
     res_memberId = to_column (in_memberId resource),
     res_memberHandle = to_column (in_memberHandle resource),
     res_roleId = str_of (in_roleId resource),
     res_created = date_or_now env (in_created resource),
     res_createdBy = str_of (in_createdBy resource),
     res_updated = date_or_now env (in_updated resource),
     res_updatedBy = to_column (in_updatedBy resource),
     res_legacyId = to_column (in_legacyId resource)\<rparr>"

text \<open>The API shape: the resource's own fields, the picked role fields, the picked phases.\<close>

record apiResource =
  api_resource :: resource
  api_role :: "(string \<times> string \<times> bool \<times> bool) option"
  api_phases :: "(string \<times> string \<times> string option) list"

definition transformResource :: "resourceIncluded option \<Rightarrow> bool \<Rightarrow> bool \<Rightarrow> apiResource option" where
  "transformResource resource includeRole includePhases =
     (case resource of
        None \<Rightarrow> None
      | Some r \<Rightarrow> Some \<lparr>
          api_resource = inc_resource r,
          api_role = (if includeRole
                      then map_option (\<lambda>x. (role_id x, role_name x, role_fullAccess x, role_selfObtainable x))
                             (inc_role r)
                      else None),
          api_phases = (if includePhases
                        then map (\<lambda>p. (phase_id p, phase_name p, phase_description p)) (inc_phases r)
                        else [])\<rparr>)"

text \<open>
  The Joi schema of \<open>validateResource\<close>. \<open>Joi.string()\<close> refuses the empty string and
  \<open>null\<close>; \<open>.allow(null)\<close> lets \<open>null\<close> through; a key that is not \<open>.required()\<close> may be
  missing.
\<close>

definition joi_string_required :: "jsval \<Rightarrow> bool" where
  "joi_string_required v = (case v of Str s \<Rightarrow> s \<noteq> [] | Undefined \<Rightarrow> False | Null \<Rightarrow> False)"

definition joi_string_allow_null :: "jsval \<Rightarrow> bool" where
  "joi_string_allow_null v = (case v of Str s \<Rightarrow> s \<noteq> [] | Undefined \<Rightarrow> True | Null \<Rightarrow> True)"

definition joi_string_uuid :: "env \<Rightarrow> jsval \<Rightarrow> bool" where
  "joi_string_uuid env v = (case v of Str s \<Rightarrow> s \<noteq> [] \<and> isUuid env s | Undefined \<Rightarrow> True | Null \<Rightarrow> False)"

definition schema_ok :: "env \<Rightarrow> resourceInput \<Rightarrow> bool" where
  "schema_ok env resource =
     (joi_string_uuid env (in_id resource)
      \<and> joi_string_allow_null (in_challengeId resource)
      \<and> joi_string_allow_null (in_memberId resource)
      \<and> joi_string_allow_null (in_memberHandle resource)
      \<and> joi_string_required (in_roleId resource)
      \<and> joi_string_required (in_createdBy resource)
      \<and> joi_string_allow_null (in_updatedBy resource)
      \<and> joi_string_allow_null (in_legacyId resource)
      \<and> (case in_phases resource of
            None \<Rightarrow> True
          | Some ps \<Rightarrow> list_all (\<lambda>p. joi_string_uuid env (Str p)) ps))"

definition validateResource :: "env \<Rightarrow> resourceInput \<Rightarrow> error + unit" where
  "validateResource env resource =
     (if \<not> schema_ok env resource then Inl ValidationError
      else if \<not> truthy (in_challengeId resource) \<and> \<not> truthy (in_memberId resource)
      then Inl ValidationError
      else Inr ())"

text \<open>A key of \<open>whereCondition\<close> that is set only when the value is truthy.\<close>

definition where_key :: "jsval \<Rightarrow> string option" where
  "where_key v = (if truthy v then Some (str_of v) else None)"

text \<open>The callback of the transaction in \<open>createResource\<close>.\<close>

definition createResource_tx ::
  "env \<Rightarrow> nat \<Rightarrow> resource \<Rightarrow> string list \<Rightarrow> jsval \<Rightarrow> jsval \<Rightarrow> resourceIncluded option prisma" where
  "createResource_tx env n0 dbResource phaseIds createdBy updatedBy =
     await (resource_create dbResource) (\<lambda>created.
     await (if length phaseIds > 0
            then await (resourcePhase_createMany
                          (newResourcePhases env n0 (res_id created) phaseIds createdBy updatedBy))
                       (\<lambda>n. ret ())
            else ret ()) (\<lambda>u.
     resource_findUnique_include (res_id created)))"

definition createResource :: "env \<Rightarrow> resourceInput \<Rightarrow> apiResource option prisma" where
  "createResource env resource =
     (case validateResource env resource of
        Inl e \<Rightarrow> throw e
      | Inr u \<Rightarrow>
          await (role_findUnique (str_of (in_roleId resource))) (\<lambda>role.
            case role of
              None \<Rightarrow> throw BadRequestError
            | Some r \<Rightarrow>
                await (resource_findFirst \<lparr>
                         where_roleId = str_of (in_roleId resource),
                         where_challengeId = where_key (in_challengeId resource),
                         where_memberId = where_key (in_memberId resource),
                         where_id_not = None\<rparr>) (\<lambda>existingResource.
                  case existingResource of
                    Some x \<Rightarrow> throw ConflictError
                  | None \<Rightarrow>
                      let phaseIds = (case in_phases resource of None \<Rightarrow> [] | Some ps \<Rightarrow> ps);
                          dbResource = buildDBResource env resource;
                          generated = (\<not> truthy (in_id resource));
                          dbResource' = (if generated then dbResource\<lparr>res_id := generateUUID env 0\<rparr>
                                         else dbResource);
                          n0 = (if generated then 1 else 0)
                      in await (transaction
                                  (createResource_tx env n0 dbResource' phaseIds
                                     (in_createdBy resource) (in_updatedBy resource)))
                               (\<lambda>result. ret (transformResource result True True)))))"

text \<open>The object given to \<open>updateResource\<close>; keys the function never reads are left out.\<close>

record resourcePatch =
  p_challengeId :: jsval
  p_memberId :: jsval
  p_memberHandle :: jsval
  p_roleId :: jsval
  p_updatedBy :: jsval
  p_legacyId :: jsval
  p_phases :: "string list option"

text \<open>\<open>_.isUndefined(data.x) ? existingResource.x : data.x\<close>\<close>

definition keep_if_undefined :: "jsval \<Rightarrow> string option \<Rightarrow> string option" where
  "keep_if_undefined v old = (if isUndefined v then old else to_column v)"

definition updateData :: "env \<Rightarrow> resourcePatch \<Rightarrow> resource \<Rightarrow> resource \<Rightarrow> resource" where
  "updateData env data existingResource row = row\<lparr>
     res_challengeId := keep_if_undefined (p_challengeId data) (res_challengeId existingResource),
     res_memberId := keep_if_undefined (p_memberId data) (res_memberId existingResource),
     res_memberHandle := keep_if_undefined (p_memberHandle data) (res_memberHandle existingResource),
     res_roleId := str_of (js_or (p_roleId data) (Str (res_roleId existingResource))),
     res_updated := now env,
     res_updatedBy := to_column (js_or (p_updatedBy data) (of_column (res_updatedBy existingResource))),
     res_legacyId := keep_if_undefined (p_legacyId data) (res_legacyId existingResource)\<rparr>"

text \<open>The callback of the transaction in \<open>updateResource\<close>.\<close>

definition updateResource_tx ::
  "env \<Rightarrow> string \<Rightarrow> resourcePatch \<Rightarrow> resource \<Rightarrow> string list \<Rightarrow> resourceIncluded option prisma" where
  "updateResource_tx env i data existingResource phaseIds =
     await (resource_update i (updateData env data existingResource)) (\<lambda>updated.
     await (if length phaseIds > 0
            then await (resourcePhase_deleteMany i) (\<lambda>k.
                 await (resourcePhase_createMany
                          (newResourcePhases env 0 i phaseIds
                             (js_or (p_updatedBy data) (of_column (res_updatedBy existingResource)))
                             (js_or (p_updatedBy data) (of_column (res_updatedBy existingResource)))))
                       (\<lambda>n. ret ()))
            else ret ()) (\<lambda>u.
     resource_findUnique_include i))"

definition updateResource :: "env \<Rightarrow> string \<Rightarrow> resourcePatch \<Rightarrow> apiResource option prisma" where
  "updateResource env i data =
     await (resource_findUnique i) (\<lambda>found.
       case found of
         None \<Rightarrow> throw NotFoundError
       | Some existingResource \<Rightarrow>
           await (if truthy (p_roleId data)
                  then await (role_findUnique (str_of (p_roleId data))) (\<lambda>role.
                         case role of None \<Rightarrow> throw BadRequestError | Some r \<Rightarrow> ret ())
                  else ret ()) (\<lambda>u.
           await (if truthy (p_challengeId data) \<or> truthy (p_memberId data) \<or> truthy (p_roleId data)
                  then await (resource_findFirst \<lparr>
                                where_roleId = str_of (js_or (p_roleId data) (Str (res_roleId existingResource))),
                                where_challengeId =
                                  where_key (js_or (p_challengeId data) (of_column (res_challengeId existingResource))),
                                where_memberId =
                                  where_key (js_or (p_memberId data) (of_column (res_memberId existingResource))),
                                where_id_not = Some i\<rparr>) (\<lambda>duplicateResource.
                         case duplicateResource of Some x \<Rightarrow> throw ConflictError | None \<Rightarrow> ret ())
                  else ret ()) (\<lambda>u'.
           let phaseIds = (case p_phases data of None \<Rightarrow> [] | Some ps \<Rightarrow> ps)
           in await (transaction (updateResource_tx env i data existingResource phaseIds))
                    (\<lambda>result. ret (transformResource result True True)))))"

definition deleteResource :: "string \<Rightarrow> unit prisma" where
  "deleteResource i =
     await (resource_findUnique i) (\<lambda>existingResource.
       case existingResource of
         None \<Rightarrow> throw NotFoundError
       | Some r \<Rightarrow> resource_delete i)"

section \<open>Role Service\<close>

text \<open>
  The object given to \<open>createRole\<close>; the two flags are \<open>None\<close> when missing.
\<close>

record roleInput =
  ri_name :: jsval
  ri_fullAccess :: "bool option"
  ri_selfObtainable :: "bool option"
  ri_createdBy :: jsval
  ri_updatedBy :: jsval
  ri_legacyId :: jsval

text \<open>\<open>data.flag || false\<close>\<close>

definition or_false :: "bool option \<Rightarrow> bool" where
  "or_false b = (case b of Some x \<Rightarrow> x | None \<Rightarrow> False)"

text \<open>\<open>createRole\<close> passes no \<open>legacyId\<close> on to \<open>prisma.role.create\<close>.\<close>

definition createRole :: "env \<Rightarrow> roleInput \<Rightarrow> role prisma" where
  "createRole env data =
     role_create (now env) \<lparr>
       rd_id = generateUUID env 0,
       rd_name = ri_name data,
       rd_fullAccess = or_false (ri_fullAccess data),
       rd_selfObtainable = or_false (ri_selfObtainable data),
       rd_createdBy = ri_createdBy data,
       rd_updatedBy = ri_updatedBy data,
       rd_legacyId = Undefined\<rparr>"

definition getRole :: "string \<Rightarrow> role prisma" where
  "getRole i =
     await (role_findUnique i) (\<lambda>role.
       case role of
         None \<Rightarrow> throw NotFoundError
       | Some r \<Rightarrow> ret r)"

definition deleteRole :: "string \<Rightarrow> unit prisma" where
  "deleteRole i =
     await (getRole i) (\<lambda>r.
     await (resource_count i) (\<lambda>resourceCount.
       if resourceCount > 0 then throw ConflictError
       else role_delete i))"

section \<open>Notions used in the statements\<close>

text \<open>The phases a resource is attached to, in the order of the association rows.\<close>

definition phasesOf :: "db \<Rightarrow> string \<Rightarrow> string list" where
  "phasesOf d rid = map rp_phaseId (filter (\<lambda>rp. rp_resourceId rp = rid) (resourcePhases d))"

text \<open>The row \<open>createResource\<close> inserts: the built row, with a generated id when none was given.\<close>

definition createdRow :: "env \<Rightarrow> resourceInput \<Rightarrow> resource" where
  "createdRow env resource =
     (buildDBResource env resource)\<lparr>res_id :=
        (if truthy (in_id resource) then str_of (in_id resource) else generateUUID env 0)\<rparr>"

text \<open>
  An operation that, run in any world, adds no \<open>Phase_findUnique\<close> to the call log.
\<close>

definition no_phase_lookup :: "'a prisma \<Rightarrow> bool" where
  "no_phase_lookup m = (\<forall>w. \<exists>cs. calls (snd (m w)) = calls w @ cs \<and> Phase_findUnique \<notin> set cs)"

text \<open>An operation that, run in any world, does not throw the error \<open>e\<close>.\<close>

definition never_throws :: "error \<Rightarrow> 'a prisma \<Rightarrow> bool" where
  "never_throws e m = (\<forall>w. fst (m w) \<noteq> Inl e)"

text \<open>The triple that is to be unique among resources.\<close>

definition triple :: "resource \<Rightarrow> string \<times> string option \<times> string option" where
  "triple r = (res_roleId r, res_challengeId r, res_memberId r)"

definition triple_unique :: "db \<Rightarrow> bool" where
  "triple_unique d = distinct (map triple (resources d))"

section \<open>A small store to run the services on\<close>

text \<open>
  The uuid test of the example environment accepts the strings of the form 8-4-4-4-12 of
  hexadecimal digits, all of which \<open>Joi.string().uuid()\<close> accepts.
\<close>

definition is_hex :: "char \<Rightarrow> bool" where
  "is_hex c = (c \<in> set ''0123456789abcdefABCDEF'')"

definition canonical_uuid :: "string \<Rightarrow> bool" where
  "canonical_uuid s =
     (length s = 36
      \<and> list_all (\<lambda>(k, c). if k = 8 \<or> k = 13 \<or> k = 18 \<or> k = 23 then c = CHR ''-'' else is_hex c)
           (enumerate 0 s))"

text \<open>
  An environment whose generated identifiers are \<open>prefix\<close>, \<open>prefix+\<close>,
  \<open>prefix++\<close>, ...; one role, three phases \<open>id_A\<close>, \<open>id_X\<close>, \<open>id_Y\<close>, no resource.
  \<open>id_B\<close> and \<open>id_Z\<close> have the form of a uuid and name no phase.
\<close>

definition example_env :: "string \<Rightarrow> env" where
  "example_env prefix = \<lparr>generateUUID = (\<lambda>n. prefix @ replicate n CHR ''+''), now = 1000, isUuid = canonical_uuid\<rparr>"

definition id_A :: string where
  "id_A = ''aaaaaaaa-aaaa-4aaa-8aaa-aaaaaaaaaaaa''"

definition id_B :: string where
  "id_B = ''bbbbbbbb-bbbb-4bbb-8bbb-bbbbbbbbbbbb''"

definition id_X :: string where
  "id_X = ''11111111-1111-4111-8111-111111111111''"

definition id_Y :: string where
  "id_Y = ''22222222-2222-4222-8222-222222222222''"

definition id_Z :: string where
  "id_Z = ''ffffffff-ffff-4fff-8fff-ffffffffffff''"

definition role_R1 :: role where
  "role_R1 = \<lparr>role_id = ''R1'', role_name = ''Submitter'', role_fullAccess = False,
     role_selfObtainable = False, role_created = 1, role_createdBy = ''u1'', role_updated = 1,
     role_updatedBy = None, role_legacyId = None\<rparr>"

definition phase_named :: "string \<Rightarrow> phase" where
  "phase_named n = \<lparr>phase_id = n, phase_name = n, phase_description = None, phase_created = 1,
     phase_createdBy = ''u1'', phase_updated = 1, phase_updatedBy = None\<rparr>"

definition world_0 :: world where
  "world_0 = \<lparr>store = \<lparr>roles = [role_R1], phases = [phase_named id_A, phase_named id_X, phase_named id_Y],
                         resources = [], resourcePhases = []\<rparr>,
              calls = []\<rparr>"

definition input_of :: "jsval \<Rightarrow> jsval \<Rightarrow> string list option \<Rightarrow> resourceInput" where
  "input_of challengeId memberId phaseIds = \<lparr>in_id = Undefined, in_challengeId = challengeId,
     in_memberId = memberId, in_memberHandle = Undefined, in_roleId = Str ''R1'', in_created = None,
     in_createdBy = Str ''u1'', in_updated = None, in_updatedBy = Undefined, in_legacyId = Undefined,
     in_phases = phaseIds\<rparr>"

definition patch_of :: "jsval \<Rightarrow> string list option \<Rightarrow> resourcePatch" where
  "patch_of challengeId phaseIds = \<lparr>p_challengeId = challengeId, p_memberId = Undefined,
     p_memberHandle = Undefined, p_roleId = Undefined, p_updatedBy = Str ''u2'', p_legacyId = Undefined,
     p_phases = phaseIds\<rparr>"

text \<open>The patch \<open>{ phases: [...] }\<close>, with no other key.\<close>

definition phases_patch :: "string list \<Rightarrow> resourcePatch" where
  "phases_patch phaseIds = \<lparr>p_challengeId = Undefined, p_memberId = Undefined,
     p_memberHandle = Undefined, p_roleId = Undefined, p_updatedBy = Undefined, p_legacyId = Undefined,
     p_phases = Some phaseIds\<rparr>"

text \<open>
  The store after the scenario's \<open>createResource\<close>: one resource, id \<open>r\<close>, attached to
  phase \<open>id_A\<close>, with no \<open>updatedBy\<close>.
\<close>

definition world_1 :: world where
  "world_1 = snd (createResource (example_env ''r'') (input_of (Str ''C1'') Undefined (Some [id_A])) world_0)"


text \<open>The store after the resource of \<open>world_1\<close> is deleted again.\<close>

definition world_2 :: world where
  "world_2 = snd (deleteResource ''r'' world_1)"

text \<open>
  Two resources for the same role and member, the second one with a challenge as well, and
  then an update of the second one that sets its challenge to \<open>null\<close>.
\<close>

definition world_A :: world where
  "world_A = snd (createResource (example_env ''a'') (input_of Undefined (Str ''M1'') None) world_0)"

definition world_B :: world where
  "world_B = snd (createResource (example_env ''b'') (input_of (Str ''C1'') (Str ''M1'') None) world_A)"

definition world_C :: world where
  "world_C = snd (updateResource (example_env ''c'') ''b'' (patch_of Null None) world_B)"

text \<open>A role with a legacy id.\<close>

definition role_input :: roleInput where
  "role_input = \<lparr>ri_name = Str ''Reviewer'', ri_fullAccess = Some True, ri_selfObtainable = None,
     ri_createdBy = Str ''u1'', ri_updatedBy = Undefined, ri_legacyId = Str ''42''\<rparr>"

section \<open>Properties\<close>

lemma example_ids_are_uuids:
  "canonical_uuid id_A \<and> canonical_uuid id_B \<and> canonical_uuid id_X \<and> canonical_uuid id_Y
   \<and> canonical_uuid id_Z"
  by code_simp

lemmas example_defs = example_env_def role_R1_def phase_named_def world_0_def input_of_def patch_of_def
  phases_patch_def
  id_A_def id_B_def id_X_def id_Y_def id_Z_def
  example_ids_are_uuids[unfolded id_A_def id_B_def id_X_def id_Y_def id_Z_def]

lemmas service_defs = createResource_def createResource_tx_def updateResource_def updateResource_tx_def
  createResourcePhases_def ensureRolePhasesDependency_def validateResource_def schema_ok_def
  joi_string_required_def joi_string_allow_null_def joi_string_uuid_def buildDBResource_def date_or_now_def
  transformResource_def where_key_def newResourcePhases_def updateData_def keep_if_undefined_def
  js_or_def createRole_def getRole_def deleteRole_def deleteResource_def or_false_def

lemmas prisma_defs = ret_def throw_def await_def logc_def transaction_def role_findUnique_def
  phase_findUnique_def resource_findUnique_def resource_findFirst_def resource_count_def
  resourcePhase_findMany_def resource_findUnique_include_def role_create_def role_row_def
  role_delete_def resource_create_def resource_update_def resource_delete_def rp_unique_violation_def rp_foreign_key_violation_def
  rp_row_def resourcePhase_createMany_def resourcePhase_deleteMany_def matches_def

lemma world_1_store:
  "store world_1 = \<lparr>roles = [role_R1],
      phases = [phase_named id_A, phase_named id_X, phase_named id_Y],
      resources = [\<lparr>res_id = ''r'', res_challengeId = Some ''C1'', res_memberId = None,
                     res_memberHandle = None, res_roleId = ''R1'', res_created = 1000,
                     res_createdBy = ''u1'', res_updated = 1000, res_updatedBy = None,
                     res_legacyId = None\<rparr>],
      resourcePhases = [\<lparr>rp_id = ''r+'', rp_resourceId = ''r'', rp_phaseId = id_A, rp_created = 1000,
                          rp_createdBy = ''u1'', rp_updated = 1000, rp_updatedBy = None\<rparr>]\<rparr>"
  by (simp add: world_1_def example_defs service_defs prisma_defs List.map_filter_def enumerate_eq_zip)

lemma world_2_store:
  "store world_2 = \<lparr>roles = [role_R1],
      phases = [phase_named id_A, phase_named id_X, phase_named id_Y],
      resources = [], resourcePhases = []\<rparr>"
  by (simp add: world_2_def world_1_store deleteResource_def prisma_defs)

lemma store_logc: "store (logc c w) = store w"
  by (simp add: logc_def)

lemma calls_logc: "calls (logc c w) = calls w @ [c]"
  by (simp add: logc_def)

lemma find_phases_store: "find_phases ids w = (r, w') \<Longrightarrow> store w' = store w"
proof (induction ids arbitrary: w r w')
  case Nil
  then show ?case by (simp add: ret_def)
next
  case (Cons a ids)
  show ?case
  proof (cases "find (\<lambda>p. phase_id p = a) (phases (store w))")
    case None
    with Cons.prems show ?thesis
      by (auto simp: await_def phase_findUnique_def throw_def store_logc)
  next
    case (Some p)
    obtain r2 w2 where rec: "find_phases ids (logc Phase_findUnique w) = (r2, w2)"
      by (cases "find_phases ids (logc Phase_findUnique w)")
    from Cons.IH[OF rec] have "store w2 = store w" by (simp add: store_logc)
    with Cons.prems Some rec show ?thesis
      by (auto simp: await_def phase_findUnique_def ret_def split: sum.splits)
  qed
qed

lemma find_phases_all_exist:
  "\<forall>p \<in> set ids. find (\<lambda>x. phase_id x = p) (phases (store w)) \<noteq> None
   \<Longrightarrow> \<exists>ps w'. find_phases ids w = (Inr ps, w')"
proof (induction ids arbitrary: w)
  case Nil
  then show ?case by (simp add: ret_def)
next
  case (Cons a ids)
  from Cons.prems obtain p where p: "find (\<lambda>x. phase_id x = a) (phases (store w)) = Some p"
    by auto
  from Cons.prems have "\<forall>p \<in> set ids. find (\<lambda>x. phase_id x = p) (phases (store (logc Phase_findUnique w))) \<noteq> None"
    by (simp add: store_logc)
  from Cons.IH[OF this] obtain ps w' where "find_phases ids (logc Phase_findUnique w) = (Inr ps, w')"
    by blast
  with p show ?case
    by (simp add: await_def phase_findUnique_def ret_def)
qed

lemma find_phases_error: "find_phases ids w = (Inl e, w') \<Longrightarrow> e = NotFoundError"
proof (induction ids arbitrary: w w')
  case Nil
  then show ?case by (simp add: ret_def)
next
  case (Cons a ids)
  show ?case
  proof (cases "find (\<lambda>p. phase_id p = a) (phases (store w))")
    case None
    with Cons.prems show ?thesis
      by (auto simp: await_def phase_findUnique_def throw_def)
  next
    case (Some p)
    obtain r2 w2 where rec: "find_phases ids (logc Phase_findUnique w) = (r2, w2)"
      by (cases "find_phases ids (logc Phase_findUnique w)")
    with Cons.prems Some Cons.IH[of "logc Phase_findUnique w" w2] show ?thesis
      by (auto simp: await_def phase_findUnique_def ret_def split: sum.splits)
  qed
qed

text \<open>
  C9. With \<open>phaseIds\<close> absent or empty, \<open>ensureRolePhasesDependency\<close> returns without
  a single call on the store (the world, call log included, is the one it was given), whether
  the role exists or not. With a non-empty list the role is looked up first, and a missing role
  is a \<open>NotFoundError\<close>.
\<close>

theorem ensureRolePhasesDependency_empty_or_absent:
  "ensureRolePhasesDependency roleId None w = (Inr (), w)
   \<and> ensureRolePhasesDependency roleId (Some []) w = (Inr (), w)
   \<and> (ids \<noteq> [] \<and> find (\<lambda>r. role_id r = roleId) (roles (store w)) = None
        \<longrightarrow> ensureRolePhasesDependency roleId (Some ids) w = (Inl NotFoundError, logc Role_findUnique w))"
  by (simp add: ensureRolePhasesDependency_def ret_def await_def role_findUnique_def throw_def)

theorem ensureRolePhasesDependency_empty_or_absent_witness:
  "ensureRolePhasesDependency ''R9'' None world_0 = (Inr (), world_0)
   \<and> ensureRolePhasesDependency ''R9'' (Some []) world_0 = (Inr (), world_0)
   \<and> find (\<lambda>r. role_id r = ''R9'') (roles (store world_0)) = None
   \<and> ensureRolePhasesDependency ''R9'' (Some [id_A]) world_0
       = (Inl NotFoundError, logc Role_findUnique world_0)"
proof -
  have h: "[id_A] \<noteq> [] \<and> find (\<lambda>r. role_id r = ''R9'') (roles (store world_0)) = None"
    by (simp add: example_defs)
  from ensureRolePhasesDependency_empty_or_absent[of "''R9''" world_0 "[id_A]"] h
  show ?thesis by blast
qed

text \<open>
  C8. When neither \<open>challengeId\<close> nor \<open>memberId\<close> is set, or \<open>roleId\<close> or
  \<open>createdBy\<close> is missing, or the input fails the schema in any other way,
  \<open>createResource\<close> throws \<open>ValidationError\<close> and the world is exactly the one it was
  given: the store is unchanged and no call on the store was made.
\<close>

theorem createResource_validation_first:
  assumes "(\<not> truthy (in_challengeId resource) \<and> \<not> truthy (in_memberId resource))
           \<or> in_roleId resource = Undefined
           \<or> in_createdBy resource = Undefined
           \<or> \<not> schema_ok env resource"
  shows "createResource env resource w = (Inl ValidationError, w)"
proof -
  have "validateResource env resource = Inl ValidationError"
    using assms by (auto simp: validateResource_def schema_ok_def joi_string_required_def)
  then show ?thesis
    by (simp add: createResource_def throw_def)
qed

theorem createResource_validation_first_witness:
  "\<not> truthy (in_challengeId (input_of Null Undefined (Some [id_A])))
   \<and> \<not> truthy (in_memberId (input_of Null Undefined (Some [id_A])))
   \<and> createResource (example_env ''s'') (input_of Null Undefined (Some [id_A])) world_1
       = (Inl ValidationError, world_1)"
proof -
  have h: "\<not> truthy (in_challengeId (input_of Null Undefined (Some [id_A])))
           \<and> \<not> truthy (in_memberId (input_of Null Undefined (Some [id_A])))"
    by (simp add: input_of_def)
  with createResource_validation_first[of "input_of Null Undefined (Some [id_A])" "example_env ''s''" world_1]
  show ?thesis by blast
qed

lemma getRole_eq:
  "getRole i w = (case find (\<lambda>r. role_id r = i) (roles (store w)) of
                    None \<Rightarrow> (Inl NotFoundError, logc Role_findUnique w)
                  | Some r \<Rightarrow> (Inr r, logc Role_findUnique w))"
  by (simp add: getRole_def await_def role_findUnique_def throw_def ret_def split: option.splits)

text \<open>
  C6. \<open>deleteRole\<close> first checks that the role exists (\<open>NotFoundError\<close> otherwise,
  store unchanged). For an existing role it fails with \<open>ConflictError\<close> and leaves the store
  as it was while some resource row references the role; in a store that honours the foreign
  key of \<open>Resource.roleId\<close> a reference alone is enough for that. When no resource
  references the existing role, the call succeeds and the role row is removed, nothing else
  changing.
\<close>

theorem deleteRole_blocked_while_referenced:
  "(find (\<lambda>r. role_id r = i) (roles (store w)) = None
      \<longrightarrow> fst (deleteRole i w) = Inl NotFoundError \<and> store (snd (deleteRole i w)) = store w)
   \<and> (find (\<lambda>r. role_id r = i) (roles (store w)) \<noteq> None \<and> (\<exists>x \<in> set (resources (store w)). res_roleId x = i)
      \<longrightarrow> fst (deleteRole i w) = Inl ConflictError \<and> store (snd (deleteRole i w)) = store w)
   \<and> ((\<forall>x \<in> set (resources (store w)). find (\<lambda>r. role_id r = res_roleId x) (roles (store w)) \<noteq> None)
        \<and> (\<exists>x \<in> set (resources (store w)). res_roleId x = i)
      \<longrightarrow> fst (deleteRole i w) = Inl ConflictError \<and> store (snd (deleteRole i w)) = store w)
   \<and> (find (\<lambda>r. role_id r = i) (roles (store w)) \<noteq> None \<and> \<not> (\<exists>x \<in> set (resources (store w)). res_roleId x = i)
      \<longrightarrow> fst (deleteRole i w) = Inr ()
          \<and> store (snd (deleteRole i w)) = (store w)\<lparr>roles := filter (\<lambda>r. role_id r \<noteq> i) (roles (store w))\<rparr>)"
proof -
  have cnt: "(length (filter (\<lambda>r. res_roleId r = i) (resources (store w))) > 0)
             = (\<exists>x \<in> set (resources (store w)). res_roleId x = i)"
    by (auto simp: filter_empty_conv)
  show ?thesis
    unfolding deleteRole_def await_def getRole_eq
    using cnt
    by (auto simp: resource_count_def role_delete_def throw_def store_logc split: option.splits)
qed

theorem deleteRole_blocked_while_referenced_witness:
  "fst (deleteRole ''R9'' world_1) = Inl NotFoundError
   \<and> list_all (\<lambda>x. find (\<lambda>r. role_id r = res_roleId x) (roles (store world_1)) \<noteq> None)
        (resources (store world_1))
   \<and> (\<exists>x \<in> set (resources (store world_1)). res_roleId x = ''R1'')
   \<and> fst (deleteRole ''R1'' world_1) = Inl ConflictError
   \<and> store (snd (deleteRole ''R1'' world_1)) = store world_1
   \<and> \<not> (\<exists>x \<in> set (resources (store world_2)). res_roleId x = ''R1'')
   \<and> fst (deleteRole ''R1'' world_2) = Inr ()
   \<and> roles (store (snd (deleteRole ''R1'' world_2))) = []"
proof -
  have h0: "find (\<lambda>r. role_id r = ''R9'') (roles (store world_1)) = None"
    by (simp add: world_1_store role_R1_def)
  have h1: "(\<forall>x \<in> set (resources (store world_1)).
               find (\<lambda>r. role_id r = res_roleId x) (roles (store world_1)) \<noteq> None)
            \<and> (\<exists>x \<in> set (resources (store world_1)). res_roleId x = ''R1'')"
    by (simp add: world_1_store role_R1_def)
  have h2: "find (\<lambda>r. role_id r = ''R1'') (roles (store world_2)) \<noteq> None
            \<and> \<not> (\<exists>x \<in> set (resources (store world_2)). res_roleId x = ''R1'')"
    by (simp add: world_2_store role_R1_def)
  have r: "roles ((store world_2)\<lparr>roles := filter (\<lambda>r. role_id r \<noteq> ''R1'') (roles (store world_2))\<rparr>) = []"
    by (simp add: world_2_store role_R1_def)
  from h1 have fk: "list_all (\<lambda>x. find (\<lambda>r. role_id r = res_roleId x) (roles (store world_1)) \<noteq> None)
                      (resources (store world_1))"
    by (simp add: list_all_iff)
  from deleteRole_blocked_while_referenced[of "''R9''" world_1] h0
    deleteRole_blocked_while_referenced[of "''R1''" world_1] h1
    deleteRole_blocked_while_referenced[of "''R1''" world_2] h2 r fk
  show ?thesis by simp
qed

lemma insert_rows_Inr:
  "insert_rows rows d = Inr d' \<Longrightarrow> d' = d\<lparr>resourcePhases := resourcePhases d @ rows\<rparr>"
proof (induction rows arbitrary: d)
  case Nil
  then show ?case by simp
next
  case (Cons a rows)
  from Cons.prems have
    r: "insert_rows rows (d\<lparr>resourcePhases := resourcePhases d @ [a]\<rparr>) = Inr d'"
    by (auto split: if_splits)
  from Cons.IH[OF r] show ?case by simp
qed

lemma createMany_effect:
  "resourcePhase_createMany data w = (r, w') \<Longrightarrow>
     (case r of
        Inl e \<Rightarrow> store w' = store w
      | Inr n \<Rightarrow> store w' = (store w)\<lparr>resourcePhases := resourcePhases (store w) @ map rp_row data\<rparr>)"
  by (auto simp: resourcePhase_createMany_def store_logc split: if_splits sum.splits dest: insert_rows_Inr)

lemma newResourcePhases_Nil: "newResourcePhases env n0 rid [] c u = []"
  by (simp add: newResourcePhases_def)

lemma transaction_cases:
  "transaction body w = (res, w') \<Longrightarrow>
     (\<exists>e w''. body w = (Inl e, w'') \<and> res = Inl e \<and> store w' = store w)
     \<or> (\<exists>x. body w = (Inr x, w') \<and> res = Inr x)"
  by (auto simp: transaction_def split: prod.splits sum.splits)

lemma createResource_tx_Inr:
  assumes "createResource_tx env n0 row phaseIds c u w = (Inr r, w')"
  shows "store w' = (store w)\<lparr>
           resources := resources (store w) @ [row],
           resourcePhases := resourcePhases (store w)
              @ map rp_row (newResourcePhases env n0 (res_id row) phaseIds c u)\<rparr>"
proof -
  from assms obtain w1 where
    c1: "resource_create row w = (Inr row, w1)"
    and s1: "store w1 = (store w)\<lparr>resources := resources (store w) @ [row]\<rparr>"
    by (auto simp: createResource_tx_def await_def resource_create_def store_logc
             split: if_splits)
  show ?thesis
  proof (cases "phaseIds = []")
    case True
    with assms c1 have "store w' = store w1"
      by (auto simp: createResource_tx_def await_def ret_def resource_findUnique_include_def store_logc)
    with s1 True show ?thesis by (simp add: newResourcePhases_Nil)
  next
    case False
    with assms c1 obtain n w2 where
      c2: "resourcePhase_createMany (newResourcePhases env n0 (res_id row) phaseIds c u) w1 = (Inr n, w2)"
      and s2: "store w' = store w2"
      by (auto simp: createResource_tx_def await_def ret_def resource_findUnique_include_def store_logc
               split: sum.splits prod.splits)
    from createMany_effect[OF c2] s1 s2 show ?thesis by simp
  qed
qed

lemma newResourcePhases_phaseIds:
  "map rp_phaseId (map rp_row (newResourcePhases env n0 rid ids c u)) = ids"
  by (simp add: newResourcePhases_def rp_row_def comp_def case_prod_beta)

lemma createMany_phases_exist:
  assumes "resourcePhase_createMany data w = (Inr n, w')"
  shows "\<forall>x \<in> set data. find (\<lambda>p. phase_id p = rpd_phaseId x) (phases (store w)) \<noteq> None"
proof -
  from assms obtain d where
    ins: "insert_rows (map rp_row data) (store w) = Inr d"
    and fk: "\<not> (\<exists>row \<in> set (map rp_row data). rp_foreign_key_violation d row)"
    by (auto simp: resourcePhase_createMany_def split: if_splits sum.splits)
  from insert_rows_Inr[OF ins] have "phases d = phases (store w)" by simp
  with fk show ?thesis
    by (auto simp: rp_foreign_key_violation_def rp_row_def)
qed

lemma createResource_tx_phases_exist:
  assumes "createResource_tx env n0 row phaseIds c u w = (Inr r, w')"
  shows "\<forall>p \<in> set phaseIds. find (\<lambda>x. phase_id x = p) (phases (store w)) \<noteq> None"
proof (cases "phaseIds = []")
  case True
  then show ?thesis by simp
next
  case False
  from assms obtain w1 where
    c1: "resource_create row w = (Inr row, w1)"
    and s1: "phases (store w1) = phases (store w)"
    by (auto simp: createResource_tx_def await_def resource_create_def store_logc
             split: if_splits)
  from False assms c1 obtain n w2 where
    c2: "resourcePhase_createMany (newResourcePhases env n0 (res_id row) phaseIds c u) w1 = (Inr n, w2)"
    by (auto simp: createResource_tx_def await_def ret_def split: sum.splits prod.splits)
  from createMany_phases_exist[OF c2] s1
  have "\<forall>p \<in> set (map rp_phaseId (map rp_row (newResourcePhases env n0 (res_id row) phaseIds c u))).
          find (\<lambda>x. phase_id x = p) (phases (store w)) \<noteq> None"
    by (simp add: rp_row_def)
  then show ?thesis by (simp only: newResourcePhases_phaseIds)
qed

lemma createResource_effect:
  assumes "createResource env resource w = (res, w')"
  shows "case res of
           Inl e \<Rightarrow> store w' = store w
         | Inr r \<Rightarrow>
             validateResource env resource = Inr ()
             \<and> (\<forall>p \<in> set (case in_phases resource of None \<Rightarrow> [] | Some ps \<Rightarrow> ps).
                    find (\<lambda>x. phase_id x = p) (phases (store w)) \<noteq> None)
             \<and> find (matches \<lparr>where_roleId = str_of (in_roleId resource),
                               where_challengeId = where_key (in_challengeId resource),
                               where_memberId = where_key (in_memberId resource),
                               where_id_not = None\<rparr>) (resources (store w)) = None
             \<and> (\<exists>n0.
                   store w' = (store w)\<lparr>
                     resources := resources (store w) @ [createdRow env resource],
                     resourcePhases := resourcePhases (store w)
                       @ map rp_row (newResourcePhases env n0 (res_id (createdRow env resource))
                           (case in_phases resource of None \<Rightarrow> [] | Some ps \<Rightarrow> ps)
                           (in_createdBy resource) (in_updatedBy resource))\<rparr>)"
proof (cases "validateResource env resource")
  case (Inl e)
  with assms show ?thesis by (auto simp: createResource_def throw_def)
next
  case (Inr u)
  note valid = this
  show ?thesis
  proof (cases "find (\<lambda>r. role_id r = str_of (in_roleId resource)) (roles (store w))")
    case None
    with assms valid show ?thesis
      by (auto simp: createResource_def await_def role_findUnique_def throw_def store_logc)
  next
    case (Some role)
    note role = this
    let ?wh = "\<lparr>where_roleId = str_of (in_roleId resource),
                 where_challengeId = where_key (in_challengeId resource),
                 where_memberId = where_key (in_memberId resource),
                 where_id_not = None\<rparr>"
    show ?thesis
    proof (cases "find (matches ?wh) (resources (store w))")
      case (Some x)
      with assms valid role show ?thesis
        by (auto simp: createResource_def await_def role_findUnique_def resource_findFirst_def
                       throw_def store_logc)
    next
      case None
      let ?w2 = "logc Resource_findFirst (logc Role_findUnique w)"
      let ?row = "createdRow env resource"
      let ?n0 = "if \<not> truthy (in_id resource) then 1 else 0 :: nat"
      let ?ids = "case in_phases resource of None \<Rightarrow> [] | Some ps \<Rightarrow> ps"
      let ?body = "createResource_tx env ?n0 ?row ?ids (in_createdBy resource) (in_updatedBy resource)"
      have row_eq: "(if \<not> truthy (in_id resource)
                     then (buildDBResource env resource)\<lparr>res_id := generateUUID env 0\<rparr>
                     else buildDBResource env resource) = ?row"
        by (simp add: buildDBResource_def createdRow_def)
      obtain tr tw where t: "transaction ?body ?w2 = (tr, tw)"
        by (cases "transaction ?body ?w2")
      have unfold: "createResource env resource w =
                      await (transaction ?body) (\<lambda>result. ret (transformResource result True True)) ?w2"
        using valid role None
        by (simp add: createResource_def await_def[of "role_findUnique _"] await_def[of "resource_findFirst _"]
                      role_findUnique_def resource_findFirst_def Let_def row_eq store_logc)
      from transaction_cases[OF t] show ?thesis
      proof
        assume "\<exists>e w''. ?body ?w2 = (Inl e, w'') \<and> tr = Inl e \<and> store tw = store ?w2"
        with assms unfold t show ?thesis
          by (auto simp: await_def store_logc)
      next
        assume "\<exists>x. ?body ?w2 = (Inr x, tw) \<and> tr = Inr x"
        then obtain x where b: "?body ?w2 = (Inr x, tw)" and tr: "tr = Inr x" by blast
        from createResource_tx_Inr[OF b]
        have st: "store tw = (store w)\<lparr>
                    resources := resources (store w) @ [?row],
                    resourcePhases := resourcePhases (store w)
                      @ map rp_row (newResourcePhases env ?n0 (res_id ?row) ?ids
                           (in_createdBy resource) (in_updatedBy resource))\<rparr>"
          by (simp add: store_logc)
        from assms unfold t tr have "res = Inr (transformResource x True True)" and "w' = tw"
          by (auto simp: await_def ret_def)
        moreover from createResource_tx_phases_exist[OF b]
        have "\<forall>p \<in> set ?ids. find (\<lambda>x. phase_id x = p) (phases (store w)) \<noteq> None"
          by (simp add: store_logc)
        ultimately show ?thesis using st valid None
          by auto
      qed
    qed
  qed
qed

lemma await_cases:
  "await m f w = (res, w') \<Longrightarrow>
     (\<exists>e. m w = (Inl e, w') \<and> res = Inl e) \<or> (\<exists>x w1. m w = (Inr x, w1) \<and> f x w1 = (res, w'))"
  by (auto simp: await_def split: prod.splits sum.splits)

lemma newResourcePhases_resourceId:
  "x \<in> set (map rp_row (newResourcePhases env n0 rid ids c u)) \<Longrightarrow> rp_resourceId x = rid"
  by (auto simp: newResourcePhases_def rp_row_def)

text \<open>
  C1. \<open>createResource\<close> with a \<open>phases\<close> list is atomic: when it throws, whatever the
  error and wherever it arises, the store is the one before the call; when it returns, the store
  has gained exactly the resource row and one association row per requested phase id, each
  pointing at the new resource.
\<close>

theorem createResource_atomic:
  assumes "in_phases resource = Some ps"
    and "createResource env resource w = (res, w')"
  shows "case res of
           Inl e \<Rightarrow> store w' = store w
         | Inr r \<Rightarrow>
             \<exists>row rows.
               store w' = (store w)\<lparr>resources := resources (store w) @ [row],
                                    resourcePhases := resourcePhases (store w) @ rows\<rparr>
               \<and> map rp_phaseId rows = ps
               \<and> (\<forall>x \<in> set rows. rp_resourceId x = res_id row)"
proof (cases res)
  case (Inl e)
  with createResource_effect[OF assms(2)] show ?thesis by simp
next
  case (Inr r)
  define row where "row = createdRow env resource"
  from Inr createResource_effect[OF assms(2)] assms(1) obtain n0 where
    st: "store w' = (store w)\<lparr>
           resources := resources (store w) @ [row],
           resourcePhases := resourcePhases (store w)
             @ map rp_row (newResourcePhases env n0 (res_id row) ps
                 (in_createdBy resource) (in_updatedBy resource))\<rparr>"
    unfolding row_def by auto
  let ?rows = "map rp_row (newResourcePhases env n0 (res_id row) ps
                 (in_createdBy resource) (in_updatedBy resource))"
  have "map rp_phaseId ?rows = ps" by (rule newResourcePhases_phaseIds)
  moreover have "\<forall>x \<in> set ?rows. rp_resourceId x = res_id row"
    using newResourcePhases_resourceId by blast
  ultimately have "store w' = (store w)\<lparr>resources := resources (store w) @ [row],
                                        resourcePhases := resourcePhases (store w) @ ?rows\<rparr>
                   \<and> map rp_phaseId ?rows = ps
                   \<and> (\<forall>x \<in> set ?rows. rp_resourceId x = res_id row)"
    using st by blast
  then have "\<exists>row rows.
               store w' = (store w)\<lparr>resources := resources (store w) @ [row],
                                    resourcePhases := resourcePhases (store w) @ rows\<rparr>
               \<and> map rp_phaseId rows = ps
               \<and> (\<forall>x \<in> set rows. rp_resourceId x = res_id row)"
    by blast
  with Inr show ?thesis by simp
qed

theorem createResource_atomic_witness:
  "\<not> isl (fst (createResource (example_env ''r'') (input_of (Str ''C1'') Undefined (Some [id_A])) world_0))
   \<and> (\<exists>row rows.
         store world_1 = (store world_0)\<lparr>resources := resources (store world_0) @ [row],
                                          resourcePhases := resourcePhases (store world_0) @ rows\<rparr>
         \<and> map rp_phaseId rows = [id_A]
         \<and> (\<forall>x \<in> set rows. rp_resourceId x = res_id row))
   \<and> phasesOf (store world_1) ''r'' = [id_A]
   \<and> fst (createResource (example_env ''s'') (input_of (Str ''C2'') Undefined (Some [id_A, id_A])) world_1)
        = Inl (PrismaClientKnownRequestError P2002)
   \<and> store (snd (createResource (example_env ''s'') (input_of (Str ''C2'') Undefined (Some [id_A, id_A])) world_1))
        = store world_1"
proof -
  let ?good = "createResource (example_env ''r'') (input_of (Str ''C1'') Undefined (Some [id_A])) world_0"
  let ?bad = "createResource (example_env ''s'') (input_of (Str ''C2'') Undefined (Some [id_A, id_A])) world_1"
  have h: "in_phases (input_of (Str ''C2'') Undefined (Some [id_A, id_A])) = Some [id_A, id_A]"
    by (simp add: input_of_def)
  have f: "fst ?bad = Inl (PrismaClientKnownRequestError P2002)"
    by code_simp
  have "?bad = (fst ?bad, snd ?bad)" by simp
  from createResource_atomic[OF h this] f have bad: "store (snd ?bad) = store world_1" by simp
  have h': "in_phases (input_of (Str ''C1'') Undefined (Some [id_A])) = Some [id_A]"
    by (simp add: input_of_def)
  have g: "\<not> isl (fst ?good)"
    by code_simp
  then obtain r where r: "fst ?good = Inr r" by (cases "fst ?good") auto
  have "?good = (fst ?good, snd ?good)" by simp
  from createResource_atomic[OF h' this] r
  have good: "\<exists>row rows.
         store world_1 = (store world_0)\<lparr>resources := resources (store world_0) @ [row],
                                          resourcePhases := resourcePhases (store world_0) @ rows\<rparr>
         \<and> map rp_phaseId rows = [id_A]
         \<and> (\<forall>x \<in> set rows. rp_resourceId x = res_id row)"
    by (simp add: world_1_def)
  have "phasesOf (store world_1) ''r'' = [id_A]"
    by (simp add: world_1_store phasesOf_def)
  with good bad f g show ?thesis by blast
qed

text \<open>
  The rollback is what makes the operation atomic: run on its own, the callback of the
  transaction leaves the resource row behind when the insert of the association rows fails.
\<close>

lemma createResource_tx_alone_leaves_resource:
  "fst (createResource_tx (example_env ''r'') 1
          (createdRow (example_env ''r'') (input_of (Str ''C1'') Undefined (Some [id_Z])))
          [id_Z] (Str ''u1'') Undefined world_0)
     = Inl (PrismaClientKnownRequestError P2003)
   \<and> map res_id (resources (store (snd (createResource_tx (example_env ''r'') 1
          (createdRow (example_env ''r'') (input_of (Str ''C1'') Undefined (Some [id_Z])))
          [id_Z] (Str ''u1'') Undefined world_0)))) = [''r'']
   \<and> resourcePhases (store (snd (createResource_tx (example_env ''r'') 1
          (createdRow (example_env ''r'') (input_of (Str ''C1'') Undefined (Some [id_Z])))
          [id_Z] (Str ''u1'') Undefined world_0))) = []"
  by (simp add: createdRow_def example_defs service_defs prisma_defs enumerate_eq_zip)

lemma updateResource_tx_Inr:
  assumes "updateResource_tx env i data ex ids w = (Inr r, w')"
  shows "store w' = (store w)\<lparr>
           resources := map (\<lambda>r. if res_id r = i then updateData env data ex r else r) (resources (store w)),
           resourcePhases :=
             (if ids = [] then resourcePhases (store w)
              else filter (\<lambda>rp. rp_resourceId rp \<noteq> i) (resourcePhases (store w))
                   @ map rp_row (newResourcePhases env 0 i ids
                       (js_or (p_updatedBy data) (of_column (res_updatedBy ex)))
                       (js_or (p_updatedBy data) (of_column (res_updatedBy ex)))))\<rparr>"
proof -
  let ?c = "js_or (p_updatedBy data) (of_column (res_updatedBy ex))"
  from assms obtain u w1 where
    c1: "resource_update i (updateData env data ex) w = (Inr u, w1)"
    and s1: "store w1 = (store w)\<lparr>resources :=
               map (\<lambda>r. if res_id r = i then updateData env data ex r else r) (resources (store w))\<rparr>"
    by (auto simp: updateResource_tx_def await_def resource_update_def store_logc
             split: if_splits option.splits)
  show ?thesis
  proof (cases "ids = []")
    case True
    with assms c1 have "store w' = store w1"
      by (auto simp: updateResource_tx_def await_def ret_def resource_findUnique_include_def store_logc)
    with s1 True show ?thesis by simp
  next
    case False
    let ?w2 = "logc ResourcePhase_deleteMany
                 (w1\<lparr>store := (store w1)\<lparr>resourcePhases :=
                     filter (\<lambda>rp. rp_resourceId rp \<noteq> i) (resourcePhases (store w1))\<rparr>\<rparr>)"
    from False assms c1 obtain n w3 where
      c2: "resourcePhase_createMany (newResourcePhases env 0 i ids ?c ?c) ?w2 = (Inr n, w3)"
      and s3: "store w' = store w3"
      by (auto simp: updateResource_tx_def await_def ret_def resource_findUnique_include_def
                     resourcePhase_deleteMany_def store_logc
               split: sum.splits prod.splits)
    from createMany_effect[OF c2] s1 s3 False show ?thesis by (simp add: store_logc)
  qed
qed

lemma updateResource_tx_createdBy:
  assumes "updateResource_tx env i data ex ids w = (Inr r, w')" and "ids \<noteq> []"
  shows "is_str (js_or (p_updatedBy data) (of_column (res_updatedBy ex)))"
proof -
  let ?c = "js_or (p_updatedBy data) (of_column (res_updatedBy ex))"
  from assms(1) obtain u w1 where
    c1: "resource_update i (updateData env data ex) w = (Inr u, w1)"
    by (auto simp: updateResource_tx_def await_def split: sum.splits prod.splits)
  let ?w2 = "logc ResourcePhase_deleteMany
               (w1\<lparr>store := (store w1)\<lparr>resourcePhases :=
                   filter (\<lambda>rp. rp_resourceId rp \<noteq> i) (resourcePhases (store w1))\<rparr>\<rparr>)"
  from assms c1 obtain n w3 where
    c2: "resourcePhase_createMany (newResourcePhases env 0 i ids ?c ?c) ?w2 = (Inr n, w3)"
    by (auto simp: updateResource_tx_def await_def ret_def resourcePhase_deleteMany_def
             split: sum.splits prod.splits)
  then have all: "\<forall>d \<in> set (newResourcePhases env 0 i ids ?c ?c). is_str (rpd_createdBy d)"
    by (auto simp: resourcePhase_createMany_def split: if_splits)
  have "length (newResourcePhases env 0 i ids ?c ?c) = length ids"
    by (simp add: newResourcePhases_def)
  with assms(2) have "newResourcePhases env 0 i ids ?c ?c \<noteq> []"
    by auto
  then obtain d where d: "d \<in> set (newResourcePhases env 0 i ids ?c ?c)"
    by (cases "newResourcePhases env 0 i ids ?c ?c") auto
  then have "rpd_createdBy d = ?c"
    by (auto simp: newResourcePhases_def)
  with all d show ?thesis by auto
qed

lemma updateResource_effect:
  assumes "updateResource env i data w = (res, w')"
  shows "case res of
           Inl e \<Rightarrow> store w' = store w
         | Inr r \<Rightarrow>
             \<exists>ex. find (\<lambda>r. res_id r = i) (resources (store w)) = Some ex
               \<and> (truthy (p_challengeId data) \<or> truthy (p_memberId data) \<or> truthy (p_roleId data)
                    \<longrightarrow> find (matches \<lparr>
                          where_roleId = str_of (js_or (p_roleId data) (Str (res_roleId ex))),
                          where_challengeId =
                            where_key (js_or (p_challengeId data) (of_column (res_challengeId ex))),
                          where_memberId =
                            where_key (js_or (p_memberId data) (of_column (res_memberId ex))),
                          where_id_not = Some i\<rparr>) (resources (store w)) = None)
               \<and> ((case p_phases data of None \<Rightarrow> [] | Some ps \<Rightarrow> ps) \<noteq> []
                    \<longrightarrow> is_str (js_or (p_updatedBy data) (of_column (res_updatedBy ex))))
               \<and> store w' = (store w)\<lparr>
                   resources := map (\<lambda>r. if res_id r = i then updateData env data ex r else r)
                                  (resources (store w)),
                   resourcePhases :=
                     (if (case p_phases data of None \<Rightarrow> [] | Some ps \<Rightarrow> ps) = []
                      then resourcePhases (store w)
                      else filter (\<lambda>rp. rp_resourceId rp \<noteq> i) (resourcePhases (store w))
                           @ map rp_row (newResourcePhases env 0 i
                               (case p_phases data of None \<Rightarrow> [] | Some ps \<Rightarrow> ps)
                               (js_or (p_updatedBy data) (of_column (res_updatedBy ex)))
                               (js_or (p_updatedBy data) (of_column (res_updatedBy ex)))))\<rparr>"
proof (cases "find (\<lambda>r. res_id r = i) (resources (store w))")
  case None
  with assms show ?thesis
    by (auto simp: updateResource_def await_def resource_findUnique_def throw_def store_logc)
next
  case (Some ex)
  let ?w1 = "logc Resource_findUnique w"
  let ?roleCheck = "if truthy (p_roleId data)
                    then await (role_findUnique (str_of (p_roleId data))) (\<lambda>role.
                           case role of None \<Rightarrow> throw BadRequestError | Some r \<Rightarrow> ret ())
                    else ret ()"
  let ?dupCheck = "if truthy (p_challengeId data) \<or> truthy (p_memberId data) \<or> truthy (p_roleId data)
                   then await (resource_findFirst \<lparr>
                                where_roleId = str_of (js_or (p_roleId data) (Str (res_roleId ex))),
                                where_challengeId =
                                  where_key (js_or (p_challengeId data) (of_column (res_challengeId ex))),
                                where_memberId =
                                  where_key (js_or (p_memberId data) (of_column (res_memberId ex))),
                                where_id_not = Some i\<rparr>) (\<lambda>duplicateResource.
                         case duplicateResource of Some x \<Rightarrow> throw ConflictError | None \<Rightarrow> ret ())
                   else ret ()"
  let ?ids = "case p_phases data of None \<Rightarrow> [] | Some ps \<Rightarrow> ps"
  let ?rest2 = "\<lambda>u'::unit. await (transaction (updateResource_tx env i data ex ?ids))
                    (\<lambda>result. ret (transformResource result True True))"
  let ?rest1 = "\<lambda>u::unit. await ?dupCheck ?rest2"
  have unfold: "updateResource env i data w = await ?roleCheck ?rest1 ?w1"
    using Some
    by (simp add: updateResource_def await_def[of "resource_findUnique _"] resource_findUnique_def Let_def)
  have role_store: "\<And>v r v'. ?roleCheck v = (r, v') \<Longrightarrow> store v' = store v"
    by (auto simp: await_def role_findUnique_def throw_def ret_def store_logc
             split: if_splits option.splits)
  have dup_store: "\<And>v r v'. ?dupCheck v = (r, v') \<Longrightarrow> store v' = store v"
    by (auto simp: await_def resource_findFirst_def throw_def ret_def store_logc
             split: if_splits option.splits)
  from assms unfold have a: "await ?roleCheck ?rest1 ?w1 = (res, w')" by simp
  from await_cases[OF a] show ?thesis
  proof
    assume "\<exists>e. ?roleCheck ?w1 = (Inl e, w') \<and> res = Inl e"
    then obtain e where "?roleCheck ?w1 = (Inl e, w')" and "res = Inl e" by blast
    with role_store[of ?w1 "Inl e" w'] show ?thesis by (simp add: store_logc)
  next
    assume "\<exists>x w1. ?roleCheck ?w1 = (Inr x, w1) \<and> ?rest1 x w1 = (res, w')"
    then obtain x w2 where r1: "?roleCheck ?w1 = (Inr x, w2)" and b: "await ?dupCheck ?rest2 w2 = (res, w')"
      by blast
    from role_store[OF r1] have s2: "store w2 = store w" by (simp add: store_logc)
    from await_cases[OF b] show ?thesis
    proof
      assume "\<exists>e. ?dupCheck w2 = (Inl e, w') \<and> res = Inl e"
      then obtain e where "?dupCheck w2 = (Inl e, w')" and "res = Inl e" by blast
      with dup_store[of w2 "Inl e" w'] s2 show ?thesis by simp
    next
      assume "\<exists>x w1. ?dupCheck w2 = (Inr x, w1) \<and> ?rest2 x w1 = (res, w')"
      then obtain y w3 where r2: "?dupCheck w2 = (Inr y, w3)"
        and c: "await (transaction (updateResource_tx env i data ex ?ids))
                  (\<lambda>result. ret (transformResource result True True)) w3 = (res, w')"
        by blast
      from dup_store[OF r2] s2 have s3: "store w3 = store w" by simp
      from r2 s2 have nodup:
        "truthy (p_challengeId data) \<or> truthy (p_memberId data) \<or> truthy (p_roleId data)
           \<longrightarrow> find (matches \<lparr>
                 where_roleId = str_of (js_or (p_roleId data) (Str (res_roleId ex))),
                 where_challengeId =
                   where_key (js_or (p_challengeId data) (of_column (res_challengeId ex))),
                 where_memberId =
                   where_key (js_or (p_memberId data) (of_column (res_memberId ex))),
                 where_id_not = Some i\<rparr>) (resources (store w)) = None"
        by (auto simp: await_def resource_findFirst_def throw_def ret_def
                 split: if_splits option.splits)
      from await_cases[OF c] show ?thesis
      proof
        assume "\<exists>e. transaction (updateResource_tx env i data ex ?ids) w3 = (Inl e, w') \<and> res = Inl e"
        then obtain e where t: "transaction (updateResource_tx env i data ex ?ids) w3 = (Inl e, w')"
          and "res = Inl e" by blast
        from transaction_cases[OF t] have "store w' = store w3" by auto
        with s3 \<open>res = Inl e\<close> show ?thesis by simp
      next
        assume "\<exists>x w1. transaction (updateResource_tx env i data ex ?ids) w3 = (Inr x, w1)
                  \<and> ret (transformResource x True True) w1 = (res, w')"
        then obtain z w4 where t: "transaction (updateResource_tx env i data ex ?ids) w3 = (Inr z, w4)"
          and e: "ret (transformResource z True True) w4 = (res, w')" by blast
        from transaction_cases[OF t] have body: "updateResource_tx env i data ex ?ids w3 = (Inr z, w4)"
          by auto
        from e have "res = Inr (transformResource z True True)" and "w' = w4"
          by (auto simp: ret_def)
        with updateResource_tx_Inr[OF body] updateResource_tx_createdBy[OF body] s3 Some nodup
        show ?thesis
          by simp
      qed
    qed
  qed
qed

text \<open>
  What does hold of the replacement: when \<open>updateResource\<close> with a non-empty \<open>phases\<close>
  list returns, the phases attached to the resource are exactly the listed ones, in the listed
  order; when it throws, the store is the one before the call.
\<close>

lemma updateResource_replaces_phases_on_return:
  assumes "p_phases data = Some ps" and "ps \<noteq> []"
    and "updateResource env i data w = (res, w')"
  shows "case res of
           Inl e \<Rightarrow> store w' = store w
         | Inr r \<Rightarrow> phasesOf (store w') i = ps"
proof (cases res)
  case (Inl e)
  with updateResource_effect[OF assms(3)] show ?thesis by simp
next
  case (Inr r)
  with updateResource_effect[OF assms(3)] assms(1,2) obtain c where
    "resourcePhases (store w') =
       filter (\<lambda>rp. rp_resourceId rp \<noteq> i) (resourcePhases (store w))
       @ map rp_row (newResourcePhases env 0 i ps c c)"
    by auto
  moreover have "filter (\<lambda>rp. rp_resourceId rp = i) (map rp_row (newResourcePhases env 0 i ps c c))
                 = map rp_row (newResourcePhases env 0 i ps c c)"
    using newResourcePhases_resourceId by (simp add: filter_id_conv del: set_map)
  ultimately have "phasesOf (store w') i = ps"
    by (simp add: phasesOf_def newResourcePhases_phaseIds del: map_map)
  with Inr show ?thesis by simp
qed

lemma updateResource_replaces_phases_example:
  "phasesOf (store world_1) ''r'' = [id_A]
   \<and> \<not> isl (fst (updateResource (example_env ''q'') ''r'' (patch_of Undefined (Some [id_X, id_Y])) world_1))
   \<and> phasesOf (store (snd (updateResource (example_env ''q'') ''r'' (patch_of Undefined (Some [id_X, id_Y])) world_1))) ''r''
        = [id_X, id_Y]
   \<and> fst (updateResource (example_env ''q'') ''r'' (patch_of Undefined (Some [id_X, id_Z])) world_1)
        = Inl (PrismaClientKnownRequestError P2003)
   \<and> store (snd (updateResource (example_env ''q'') ''r'' (patch_of Undefined (Some [id_X, id_Z])) world_1))
        = store world_1"
proof -
  let ?run = "updateResource (example_env ''q'') ''r'' (patch_of Undefined (Some [id_X, id_Y])) world_1"
  let ?bad = "updateResource (example_env ''q'') ''r'' (patch_of Undefined (Some [id_X, id_Z])) world_1"
  have h1: "p_phases (patch_of Undefined (Some [id_X, id_Y])) = Some [id_X, id_Y]"
    by (simp add: patch_of_def)
  have h2: "[id_X, id_Y] \<noteq> []" by simp
  have ok: "\<not> isl (fst ?run)" by code_simp
  then obtain r where r: "fst ?run = Inr r" by (cases "fst ?run") auto
  have h3: "?run = (fst ?run, snd ?run)" by simp
  from updateResource_replaces_phases_on_return[OF h1 h2 h3] r
  have good: "phasesOf (store (snd ?run)) ''r'' = [id_X, id_Y]" by simp
  have b1: "p_phases (patch_of Undefined (Some [id_X, id_Z])) = Some [id_X, id_Z]"
    by (simp add: patch_of_def)
  have b2: "[id_X, id_Z] \<noteq> []" by simp
  have b3: "?bad = (fst ?bad, snd ?bad)" by simp
  have f: "fst ?bad = Inl (PrismaClientKnownRequestError P2003)" by code_simp
  from updateResource_replaces_phases_on_return[OF b1 b2 b3] f
  have bad: "store (snd ?bad) = store world_1" by simp
  have "phasesOf (store world_1) ''r'' = [id_A]"
    by (simp add: world_1_store phasesOf_def)
  with good bad ok f show ?thesis by simp
qed

text \<open>
  But the call does not return when neither the patch nor the stored resource has an
  \<open>updatedBy\<close>: the new association rows take their required \<open>createdBy\<close> from
  \<open>data.updatedBy || existingResource.updatedBy\<close>, which is then \<open>null\<close>, the client
  refuses the rows, and the transaction rolls back. This holds for every environment, store
  and patch.
\<close>

lemma updateResource_phases_need_updatedBy:
  assumes "find (\<lambda>r. res_id r = i) (resources (store w)) = Some ex"
    and "res_updatedBy ex = None"
    and "\<not> truthy (p_updatedBy data)"
    and "p_phases data = Some ps" and "ps \<noteq> []"
  shows "isl (fst (updateResource env i data w))
         \<and> store (snd (updateResource env i data w)) = store w"
proof (cases "updateResource env i data w")
  case (Pair res w')
  have no: "\<not> is_str (js_or (p_updatedBy data) (of_column (res_updatedBy ex)))"
    using assms(2,3) by (simp add: js_or_def)
  show ?thesis
  proof (cases res)
    case (Inl e)
    with updateResource_effect[OF Pair] Pair show ?thesis by simp
  next
    case (Inr r)
    with updateResource_effect[OF Pair] assms(1,4,5) no show ?thesis by auto
  qed
qed

text \<open>
  C4 fails on the spec's own example. The resource of \<open>world_1\<close>, created as in the scenario,
  is attached to \<open>id_A\<close> and has no \<open>updatedBy\<close>; \<open>id_X\<close> and \<open>id_Y\<close> are existing
  phases. \<open>updateResource\<close> with the patch \<open>{ phases: [id_X, id_Y] }\<close> throws
  \<open>PrismaClientValidationError\<close> and the resource is still attached to \<open>id_A\<close> alone.
\<close>

theorem updateResource_phases_only_patch_throws:
  "phasesOf (store world_1) ''r'' = [id_A]
   \<and> map res_updatedBy (resources (store world_1)) = [None]
   \<and> map phase_id (phases (store world_1)) = [id_A, id_X, id_Y]
   \<and> fst (updateResource (example_env ''q'') ''r'' (phases_patch [id_X, id_Y]) world_1)
        = Inl PrismaClientValidationError
   \<and> phasesOf (store (snd (updateResource (example_env ''q'') ''r'' (phases_patch [id_X, id_Y]) world_1))) ''r''
        = [id_A]"
  by code_simp

text \<open>
  C10. \<open>updateResource\<close> with \<open>phases: []\<close> leaves the association table as it was,
  whether the call succeeds or throws: the delete-then-recreate step runs only for a non-empty
  list.
\<close>

theorem updateResource_empty_phases_unchanged:
  "resourcePhases (store (snd (updateResource env i (data\<lparr>p_phases := Some []\<rparr>) w)))
     = resourcePhases (store w)"
proof -
  obtain res w' where u: "updateResource env i (data\<lparr>p_phases := Some []\<rparr>) w = (res, w')"
    by (cases "updateResource env i (data\<lparr>p_phases := Some []\<rparr>) w")
  from updateResource_effect[OF u] have "resourcePhases (store w') = resourcePhases (store w)"
    by (cases res) auto
  with u show ?thesis by simp
qed

theorem updateResource_empty_phases_unchanged_witness:
  "\<not> isl (fst (updateResource (example_env ''q'') ''r'' ((patch_of Undefined None)\<lparr>p_phases := Some []\<rparr>) world_1))
   \<and> phasesOf (store world_1) ''r'' = [id_A]
   \<and> phasesOf (store (snd (updateResource (example_env ''q'') ''r''
                              ((patch_of Undefined None)\<lparr>p_phases := Some []\<rparr>) world_1))) ''r''
        = [id_A]"
proof -
  let ?run = "updateResource (example_env ''q'') ''r'' ((patch_of Undefined None)\<lparr>p_phases := Some []\<rparr>) world_1"
  have ok: "\<not> isl (fst ?run)" by code_simp
  have a: "phasesOf (store world_1) ''r'' = [id_A]"
    by (simp add: world_1_store phasesOf_def)
  from updateResource_empty_phases_unchanged[of "example_env ''q''" "''r''" "patch_of Undefined None" world_1]
  have "phasesOf (store (snd ?run)) ''r'' = phasesOf (store world_1) ''r''"
    by (simp add: phasesOf_def)
  with ok a show ?thesis by simp
qed

lemma find_phases_Inr_exist:
  "find_phases ids w = (Inr ps, w') \<Longrightarrow>
     \<forall>p \<in> set ids. find (\<lambda>x. phase_id x = p) (phases (store w)) \<noteq> None"
proof (induction ids arbitrary: w ps w')
  case Nil
  then show ?case by simp
next
  case (Cons a ids)
  show ?case
  proof (cases "find (\<lambda>p. phase_id p = a) (phases (store w))")
    case None
    with Cons.prems show ?thesis
      by (auto simp: await_def phase_findUnique_def throw_def)
  next
    case (Some p)
    obtain r2 w2 where rec: "find_phases ids (logc Phase_findUnique w) = (r2, w2)"
      by (cases "find_phases ids (logc Phase_findUnique w)")
    with Cons.prems Some obtain ps2 where "r2 = Inr ps2"
      by (auto simp: await_def phase_findUnique_def ret_def split: sum.splits)
    with rec Cons.IH[of "logc Phase_findUnique w" ps2 w2]
    have "\<forall>p \<in> set ids. find (\<lambda>x. phase_id x = p) (phases (store w)) \<noteq> None"
      by (simp add: store_logc)
    with Some show ?thesis by simp
  qed
qed

lemma ensureRolePhasesDependency_store:
  assumes "ensureRolePhasesDependency roleId phaseIds w = (r, w')"
  shows "store w' = store w"
proof (cases phaseIds)
  case None
  with assms show ?thesis by (simp add: ensureRolePhasesDependency_def ret_def)
next
  case (Some ids)
  show ?thesis
  proof (cases "ids = [] \<or> find (\<lambda>r. role_id r = roleId) (roles (store w)) = None")
    case True
    with assms Some show ?thesis
      by (auto simp: ensureRolePhasesDependency_def ret_def await_def role_findUnique_def throw_def store_logc
               split: if_splits)
  next
    case False
    then obtain role where "find (\<lambda>r. role_id r = roleId) (roles (store w)) = Some role" and "ids \<noteq> []"
      by auto
    with assms Some have a: "await (find_phases ids) (\<lambda>ps. ret ()) (logc Role_findUnique w) = (r, w')"
      by (simp add: ensureRolePhasesDependency_def await_def[of "role_findUnique _"] role_findUnique_def)
    obtain r2 w2 where f: "find_phases ids (logc Role_findUnique w) = (r2, w2)"
      by (cases "find_phases ids (logc Role_findUnique w)")
    from find_phases_store[OF f] have "store w2 = store w" by (simp add: store_logc)
    moreover from a f have "w' = w2"
      by (auto simp: await_def ret_def split: sum.splits)
    ultimately show ?thesis by simp
  qed
qed

lemma createResourcePhases_error_store:
  assumes "createResourcePhases env rid phaseIds userId w = (Inl e, w')"
  shows "store w' = store w"
proof (cases phaseIds)
  case None
  with assms show ?thesis by (simp add: createResourcePhases_def ret_def)
next
  case (Some ids)
  show ?thesis
  proof (cases "ids = [] \<or> find (\<lambda>r. res_id r = rid) (resources (store w)) = None")
    case True
    with assms Some show ?thesis
      by (auto simp: createResourcePhases_def ret_def await_def resource_findUnique_def throw_def store_logc
               split: if_splits)
  next
    case False
    then obtain res where res: "find (\<lambda>r. res_id r = rid) (resources (store w)) = Some res"
      and ne: "ids \<noteq> []" by auto
    let ?w1 = "logc Resource_findUnique w"
    let ?k3 = "\<lambda>phases (u::unit). await (resourcePhase_createMany (newResourcePhases env 0 rid ids userId userId))
                                  (\<lambda>n. ret phases)"
    let ?k2 = "\<lambda>phases existingResourcePhases.
                 if length (existingResourcePhases :: resourcePhase list) > 0 then throw ConflictError
                 else await (ensureRolePhasesDependency (res_roleId res) (Some ids)) (?k3 phases)"
    let ?k1 = "\<lambda>phases. await (resourcePhase_findMany rid ids) (?k2 phases)"
    from assms Some res ne have a: "await (find_phases ids) ?k1 ?w1 = (Inl e, w')"
      by (simp add: createResourcePhases_def await_def[of "resource_findUnique _"] resource_findUnique_def)
    from await_cases[OF a] show ?thesis
    proof
      assume "\<exists>e'. find_phases ids ?w1 = (Inl e', w') \<and> Inl e = Inl e'"
      then have "find_phases ids ?w1 = (Inl e, w')" by auto
      from find_phases_store[OF this] show ?thesis by (simp add: store_logc)
    next
      assume "\<exists>x w1. find_phases ids ?w1 = (Inr x, w1) \<and> ?k1 x w1 = (Inl e, w')"
      then obtain phases w2 where f: "find_phases ids ?w1 = (Inr phases, w2)"
        and b: "?k1 phases w2 = (Inl e, w')" by blast
      from find_phases_store[OF f] have s2: "store w2 = store w" by (simp add: store_logc)
      let ?w3 = "logc ResourcePhase_findMany w2"
      let ?ex = "filter (\<lambda>rp. rp_resourceId rp = rid \<and> rp_phaseId rp \<in> set ids) (resourcePhases (store w2))"
      from b have c: "?k2 phases ?ex ?w3 = (Inl e, w')"
        by (simp add: await_def[of "resourcePhase_findMany _ _"] resourcePhase_findMany_def)
      show ?thesis
      proof (cases "length ?ex > 0")
        case True
        with c s2 show ?thesis by (auto simp: throw_def store_logc)
      next
        case False
        with c have d: "await (ensureRolePhasesDependency (res_roleId res) (Some ids)) (?k3 phases) ?w3 = (Inl e, w')"
          by simp
        from await_cases[OF d] show ?thesis
        proof
          assume "\<exists>e'. ensureRolePhasesDependency (res_roleId res) (Some ids) ?w3 = (Inl e', w') \<and> Inl e = Inl e'"
          then have "ensureRolePhasesDependency (res_roleId res) (Some ids) ?w3 = (Inl e, w')" by auto
          from ensureRolePhasesDependency_store[OF this] s2 show ?thesis by (simp add: store_logc)
        next
          assume "\<exists>x w1. ensureRolePhasesDependency (res_roleId res) (Some ids) ?w3 = (Inr x, w1)
                    \<and> ?k3 phases x w1 = (Inl e, w')"
          then obtain x w4 where g: "ensureRolePhasesDependency (res_roleId res) (Some ids) ?w3 = (Inr x, w4)"
            and h: "?k3 phases x w4 = (Inl e, w')" by blast
          from ensureRolePhasesDependency_store[OF g] s2 have s4: "store w4 = store w" by (simp add: store_logc)
          from await_cases[OF h] have "resourcePhase_createMany (newResourcePhases env 0 rid ids userId userId) w4 = (Inl e, w')"
            by (auto simp: ret_def)
          from createMany_effect[OF this] s4 show ?thesis by simp
        qed
      qed
    qed
  qed
qed

text \<open>
  C3, amended. For a resource that exists and is attached to phase \<open>a\<close>, and a request list
  that contains \<open>a\<close>: when every listed phase id exists the call fails with
  \<open>ConflictError\<close>; when some listed phase id does not exist it fails with
  \<open>NotFoundError\<close> (the existence check comes first). In both cases the store is unchanged,
  so none of the requested phases is added.
\<close>

theorem createResourcePhases_duplicate_all_or_nothing:
  assumes "find (\<lambda>r. res_id r = rid) (resources (store w)) \<noteq> None"
    and "a \<in> set (phasesOf (store w) rid)"
    and "a \<in> set ids"
  shows "fst (createResourcePhases env rid (Some ids) userId w)
           = (if \<forall>p \<in> set ids. find (\<lambda>x. phase_id x = p) (phases (store w)) \<noteq> None
              then Inl ConflictError else Inl NotFoundError)
         \<and> store (snd (createResourcePhases env rid (Some ids) userId w)) = store w"
proof -
  from assms(1) obtain res where res: "find (\<lambda>r. res_id r = rid) (resources (store w)) = Some res"
    by auto
  from assms(3) have ne: "ids \<noteq> []" by auto
  let ?w1 = "logc Resource_findUnique w"
  let ?k3 = "\<lambda>phases (u::unit). await (resourcePhase_createMany (newResourcePhases env 0 rid ids userId userId))
                                (\<lambda>n. ret phases)"
  let ?k2 = "\<lambda>phases existingResourcePhases.
               if length (existingResourcePhases :: resourcePhase list) > 0 then throw ConflictError
               else await (ensureRolePhasesDependency (res_roleId res) (Some ids)) (?k3 phases)"
  let ?k1 = "\<lambda>phases. await (resourcePhase_findMany rid ids) (?k2 phases)"
  have unfold: "createResourcePhases env rid (Some ids) userId w = await (find_phases ids) ?k1 ?w1"
    using res ne
    by (simp add: createResourcePhases_def await_def[of "resource_findUnique _"] resource_findUnique_def)
  obtain r w' where run: "createResourcePhases env rid (Some ids) userId w = (r, w')"
    by (cases "createResourcePhases env rid (Some ids) userId w")
  have result: "r = (if \<forall>p \<in> set ids. find (\<lambda>x. phase_id x = p) (phases (store w)) \<noteq> None
                     then Inl ConflictError else Inl NotFoundError)"
  proof (cases "\<forall>p \<in> set ids. find (\<lambda>x. phase_id x = p) (phases (store w)) \<noteq> None")
    case True
    then have "\<forall>p \<in> set ids. find (\<lambda>x. phase_id x = p) (phases (store ?w1)) \<noteq> None"
      by (simp add: store_logc)
    from find_phases_all_exist[OF this] obtain ps w2 where f: "find_phases ids ?w1 = (Inr ps, w2)"
      by blast
    from find_phases_store[OF f] have s2: "store w2 = store w" by (simp add: store_logc)
    from assms(2,3) have "filter (\<lambda>rp. rp_resourceId rp = rid \<and> rp_phaseId rp \<in> set ids)
                            (resourcePhases (store w)) \<noteq> []"
      by (auto simp: phasesOf_def filter_empty_conv)
    with s2 have "?k1 ps w2 = (Inl ConflictError, logc ResourcePhase_findMany w2)"
      by (simp add: await_def resourcePhase_findMany_def throw_def)
    with f unfold run True show ?thesis by (simp add: await_def)
  next
    case False
    have "\<exists>e w2. find_phases ids ?w1 = (Inl e, w2)"
    proof (cases "find_phases ids ?w1")
      case (Pair x w2)
      show ?thesis
      proof (cases x)
        case (Inl e)
        with Pair show ?thesis by blast
      next
        case (Inr ps)
        with Pair find_phases_Inr_exist[of ids ?w1 ps w2] False show ?thesis
          by (simp add: store_logc)
      qed
    qed
    then obtain e w2 where f: "find_phases ids ?w1 = (Inl e, w2)" by blast
    from find_phases_error[OF f] have "e = NotFoundError" .
    with f unfold run False show ?thesis by (simp add: await_def)
  qed
  from result have "\<exists>e. r = Inl e" by (simp split: if_splits)
  then obtain e where "r = Inl e" by blast
  with run createResourcePhases_error_store[of env rid "Some ids" userId w e w']
  have "store w' = store w" by simp
  with result run show ?thesis by simp
qed

theorem createResourcePhases_duplicate_all_or_nothing_witness:
  "find (\<lambda>r. res_id r = ''r'') (resources (store world_1)) \<noteq> None
   \<and> id_A \<in> set (phasesOf (store world_1) ''r'')
   \<and> fst (createResourcePhases (example_env ''p'') ''r'' (Some [id_X, id_A]) (Str ''u1'') world_1)
        = Inl ConflictError
   \<and> store (snd (createResourcePhases (example_env ''p'') ''r'' (Some [id_X, id_A]) (Str ''u1'') world_1))
        = store world_1
   \<and> phasesOf (store (snd (createResourcePhases (example_env ''p'') ''r'' (Some [id_X, id_A]) (Str ''u1'') world_1))) ''r''
        = [id_A]"
proof -
  have h1: "find (\<lambda>r. res_id r = ''r'') (resources (store world_1)) \<noteq> None"
    by (simp add: world_1_store)
  have h2: "id_A \<in> set (phasesOf (store world_1) ''r'')"
    by (simp add: world_1_store phasesOf_def)
  have h3: "id_A \<in> set [id_X, id_A]" by simp
  have h4: "\<forall>p \<in> set [id_X, id_A]. find (\<lambda>x. phase_id x = p) (phases (store world_1)) \<noteq> None"
    by (simp add: world_1_store phase_named_def)
  have h5: "phasesOf (store world_1) ''r'' = [id_A]"
    by (simp add: world_1_store phasesOf_def)
  from createResourcePhases_duplicate_all_or_nothing[OF h1 h2 h3, of "example_env ''p''" "Str ''u1''"] h4
  have "fst (createResourcePhases (example_env ''p'') ''r'' (Some [id_X, id_A]) (Str ''u1'') world_1)
          = Inl ConflictError
        \<and> store (snd (createResourcePhases (example_env ''p'') ''r'' (Some [id_X, id_A]) (Str ''u1'') world_1))
          = store world_1"
    by simp
  with h1 h2 h5 show ?thesis by simp
qed

text \<open>
  C3 as stated fails: the resource of \<open>world_1\<close> is attached to phase \<open>A\<close>, the request
  list \<open>[B, A]\<close> contains \<open>A\<close>, and the call fails with \<open>NotFoundError\<close>, not with
  \<open>ConflictError\<close>, because no phase \<open>B\<close> exists.
\<close>

theorem createResourcePhases_conflict_counterexample:
  "id_A \<in> set (phasesOf (store world_1) ''r'')
   \<and> id_A \<in> set [id_B, id_A]
   \<and> fst (createResourcePhases (example_env ''p'') ''r'' (Some [id_B, id_A]) (Str ''u1'') world_1)
        = Inl NotFoundError
   \<and> fst (createResourcePhases (example_env ''p'') ''r'' (Some [id_B, id_A]) (Str ''u1'') world_1)
        \<noteq> Inl ConflictError"
  by (simp add: world_1_store phasesOf_def createResourcePhases_def prisma_defs example_defs)

text \<open>
  What does hold of the uniqueness: \<open>createResource\<close> keeps it, and so does
  \<open>updateResource\<close> as long as the patch does not carry \<open>null\<close> or an empty string
  for \<open>challengeId\<close> or \<open>memberId\<close> and the ids are unique.
\<close>

lemma createResource_keeps_triple_unique:
  assumes "triple_unique (store w)"
    and "createResource env resource w = (Inr r, w')"
  shows "triple_unique (store w')"
proof -
  let ?wh = "\<lparr>where_roleId = str_of (in_roleId resource),
               where_challengeId = where_key (in_challengeId resource),
               where_memberId = where_key (in_memberId resource),
               where_id_not = None\<rparr>"
  from createResource_effect[OF assms(2)] obtain n0 where
    nomatch: "find (matches ?wh) (resources (store w)) = None"
    and st: "resources (store w') = resources (store w) @ [createdRow env resource]"
    by auto
  have new: "triple (createdRow env resource)
               = (str_of (in_roleId resource), to_column (in_challengeId resource),
                  to_column (in_memberId resource))"
    by (simp add: triple_def createdRow_def buildDBResource_def)
  have "triple (createdRow env resource) \<notin> set (map triple (resources (store w)))"
  proof
    assume "triple (createdRow env resource) \<in> set (map triple (resources (store w)))"
    then obtain x where x: "x \<in> set (resources (store w))"
      and tx: "triple x = triple (createdRow env resource)" by auto
    from tx new have "matches ?wh x"
      by (cases "in_challengeId resource"; cases "in_memberId resource")
         (auto simp: matches_def where_key_def triple_def)
    with x nomatch show False by (simp add: find_None_iff)
  qed
  with assms(1) st show ?thesis by (simp add: triple_unique_def)
qed

lemma distinct_map_update_one:
  assumes "distinct (map k xs)" and "distinct (map t xs)"
    and "\<forall>x \<in> set xs. k x \<noteq> i \<longrightarrow> t x \<noteq> t'"
    and "\<forall>x \<in> set xs. k x = i \<longrightarrow> t (f x) = t'"
  shows "distinct (map t (map (\<lambda>x. if k x = i then f x else x) xs))"
  using assms
proof (induction xs)
  case Nil
  then show ?case by simp
next
  case (Cons a xs)
  then have IH: "distinct (map t (map (\<lambda>x. if k x = i then f x else x) xs))" by simp
  show ?case
  proof (cases "k a = i")
    case True
    with Cons.prems(1) have others: "\<forall>x \<in> set xs. k x \<noteq> i" by (force simp: image_iff)
    then have same: "map (\<lambda>x. if k x = i then f x else x) xs = xs"
      by (simp add: map_idI)
    from True Cons.prems have "t (f a) = t'" by simp
    moreover from others Cons.prems have "t' \<notin> set (map t xs)" by auto
    ultimately show ?thesis using True same Cons.prems by simp
  next
    case False
    with Cons.prems have ne: "t a \<noteq> t'" by simp
    from Cons.prems have notin: "t a \<notin> set (map t xs)" by simp
    have "t a \<notin> set (map t (map (\<lambda>x. if k x = i then f x else x) xs))"
    proof
      assume "t a \<in> set (map t (map (\<lambda>x. if k x = i then f x else x) xs))"
      then obtain y where y: "y \<in> set xs" and e: "t a = t (if k y = i then f y else y)"
        by auto
      show False
      proof (cases "k y = i")
        case True
        with e y Cons.prems(4) have "t a = t'" by simp
        with ne show False by simp
      next
        case False
        with e have "t a = t y" by simp
        with y notin show False by auto
      qed
    qed
    with False IH show ?thesis by simp
  qed
qed

lemma updateResource_keeps_triple_unique_without_null:
  assumes uniq: "triple_unique (store w)"
    and pk: "distinct (map res_id (resources (store w)))"
    and run: "updateResource env i data w = (Inr r, w')"
    and c: "isUndefined (p_challengeId data) \<or> truthy (p_challengeId data)"
    and m: "isUndefined (p_memberId data) \<or> truthy (p_memberId data)"
  shows "triple_unique (store w')"
proof -
  from updateResource_effect[OF run] obtain ex where
    ex: "find (\<lambda>r. res_id r = i) (resources (store w)) = Some ex"
    and nodup: "truthy (p_challengeId data) \<or> truthy (p_memberId data) \<or> truthy (p_roleId data)
           \<longrightarrow> find (matches \<lparr>
                 where_roleId = str_of (js_or (p_roleId data) (Str (res_roleId ex))),
                 where_challengeId =
                   where_key (js_or (p_challengeId data) (of_column (res_challengeId ex))),
                 where_memberId =
                   where_key (js_or (p_memberId data) (of_column (res_memberId ex))),
                 where_id_not = Some i\<rparr>) (resources (store w)) = None"
    and st: "resources (store w') =
               map (\<lambda>r. if res_id r = i then updateData env data ex r else r) (resources (store w))"
    by auto
  from ex have ex_in: "ex \<in> set (resources (store w))" and ex_id: "res_id ex = i"
    by (auto simp: find_Some_iff)
  let ?t' = "triple (updateData env data ex ex)"
  have upd: "\<forall>x \<in> set (resources (store w)). res_id x = i \<longrightarrow> triple (updateData env data ex x) = ?t'"
    by (simp add: triple_def updateData_def)
  have others: "\<forall>x \<in> set (resources (store w)). res_id x \<noteq> i \<longrightarrow> triple x \<noteq> ?t'"
  proof (intro ballI impI)
    fix x assume x: "x \<in> set (resources (store w))" and xi: "res_id x \<noteq> i"
    show "triple x \<noteq> ?t'"
    proof (cases "truthy (p_challengeId data) \<or> truthy (p_memberId data) \<or> truthy (p_roleId data)")
      case False
      with c m have "?t' = triple ex"
        by (cases "p_challengeId data"; cases "p_memberId data")
           (auto simp: triple_def updateData_def keep_if_undefined_def js_or_def)
      moreover from uniq x ex_in xi ex_id have "triple x \<noteq> triple ex"
        by (auto simp: triple_unique_def distinct_map inj_on_def)
      ultimately show ?thesis by simp
    next
      case True
      with nodup x have nm: "\<not> matches \<lparr>
                 where_roleId = str_of (js_or (p_roleId data) (Str (res_roleId ex))),
                 where_challengeId =
                   where_key (js_or (p_challengeId data) (of_column (res_challengeId ex))),
                 where_memberId =
                   where_key (js_or (p_memberId data) (of_column (res_memberId ex))),
                 where_id_not = Some i\<rparr> x"
        by (simp add: find_None_iff)
      show ?thesis
      proof
        assume "triple x = ?t'"
        with c m xi have "matches \<lparr>
                 where_roleId = str_of (js_or (p_roleId data) (Str (res_roleId ex))),
                 where_challengeId =
                   where_key (js_or (p_challengeId data) (of_column (res_challengeId ex))),
                 where_memberId =
                   where_key (js_or (p_memberId data) (of_column (res_memberId ex))),
                 where_id_not = Some i\<rparr> x"
          by (cases "p_challengeId data"; cases "p_memberId data";
              cases "res_challengeId ex"; cases "res_memberId ex")
             (auto simp: matches_def where_key_def triple_def updateData_def keep_if_undefined_def js_or_def)
        with nm show False by simp
      qed
    qed
  qed
  from uniq have "distinct (map triple (resources (store w)))" by (simp add: triple_unique_def)
  from distinct_map_update_one[OF pk this others upd] st show ?thesis
    by (simp add: triple_unique_def)
qed

text \<open>
  C2 fails on \<open>updateResource\<close>. Starting from a store with no resource, two successful
  \<open>createResource\<close> calls and one successful \<open>updateResource\<close> call with
  \<open>challengeId: null\<close> end in a store where two distinct resources agree on
  \<open>(roleId, challengeId, memberId)\<close>. The duplicate check is skipped because
  \<open>data.challengeId || data.memberId || data.roleId\<close> is falsy, while the written value is
  chosen by \<open>_.isUndefined\<close>, for which \<open>null\<close> is a value to write.
\<close>

theorem updateResource_null_breaks_uniqueness:
  "triple_unique (store world_0)
   \<and> \<not> isl (fst (createResource (example_env ''a'') (input_of Undefined (Str ''M1'') None) world_0))
   \<and> triple_unique (store world_A)
   \<and> \<not> isl (fst (createResource (example_env ''b'') (input_of (Str ''C1'') (Str ''M1'') None) world_A))
   \<and> triple_unique (store world_B)
   \<and> \<not> isl (fst (updateResource (example_env ''c'') ''b'' (patch_of Null None) world_B))
   \<and> map res_id (resources (store world_C)) = [''a'', ''b'']
   \<and> map triple (resources (store world_C)) = [(''R1'', None, Some ''M1''), (''R1'', None, Some ''M1'')]
   \<and> \<not> triple_unique (store world_C)"
  by code_simp

text \<open>
  For every environment, input and store, \<open>createResource\<close> looks no phase up and never
  throws \<open>NotFoundError\<close>. A phase id that does not exist still makes the call fail, through
  the foreign key of the association row.
\<close>

lemma no_phase_lookup_ret: "no_phase_lookup (ret x)"
  by (simp add: no_phase_lookup_def ret_def)

lemma no_phase_lookup_throw: "no_phase_lookup (throw e)"
  by (simp add: no_phase_lookup_def throw_def)

lemma no_phase_lookup_await:
  assumes "no_phase_lookup m" and "\<And>x. no_phase_lookup (f x)"
  shows "no_phase_lookup (await m f)"
  unfolding no_phase_lookup_def
proof
  fix w
  from assms(1) obtain cs where cs: "calls (snd (m w)) = calls w @ cs" "Phase_findUnique \<notin> set cs"
    unfolding no_phase_lookup_def by blast
  show "\<exists>cs. calls (snd (await m f w)) = calls w @ cs \<and> Phase_findUnique \<notin> set cs"
  proof (cases "m w")
    case (Pair r w1)
    show ?thesis
    proof (cases r)
      case (Inl e)
      with Pair cs show ?thesis by (auto simp: await_def)
    next
      case (Inr x)
      from assms(2)[of x] obtain ds where
        "calls (snd (f x w1)) = calls w1 @ ds" "Phase_findUnique \<notin> set ds"
        unfolding no_phase_lookup_def by blast
      with Pair Inr cs have "calls (snd (await m f w)) = calls w @ (cs @ ds)"
        "Phase_findUnique \<notin> set (cs @ ds)"
        by (auto simp: await_def)
      then show ?thesis by blast
    qed
  qed
qed

lemma no_phase_lookup_transaction:
  assumes "no_phase_lookup m"
  shows "no_phase_lookup (transaction m)"
  unfolding no_phase_lookup_def
proof
  fix w
  from assms obtain cs where cs: "calls (snd (m w)) = calls w @ cs" "Phase_findUnique \<notin> set cs"
    unfolding no_phase_lookup_def by blast
  then have "calls (snd (transaction m w)) = calls w @ cs"
    by (auto simp: transaction_def split: prod.splits sum.splits)
  with cs show "\<exists>cs. calls (snd (transaction m w)) = calls w @ cs \<and> Phase_findUnique \<notin> set cs"
    by blast
qed

lemma no_phase_lookup_prims:
  "no_phase_lookup (role_findUnique i)"
  "no_phase_lookup (resource_findFirst wh)"
  "no_phase_lookup (resource_create row)"
  "no_phase_lookup (resourcePhase_createMany rows)"
  "no_phase_lookup (resource_findUnique_include i)"
  by (auto simp: no_phase_lookup_def role_findUnique_def resource_findFirst_def resource_create_def
        resourcePhase_createMany_def resource_findUnique_include_def calls_logc split: sum.splits)

lemma createResource_no_phase_lookup: "no_phase_lookup (createResource env resource)"
  unfolding createResource_def createResource_tx_def Let_def
  by (auto intro!: no_phase_lookup_ret no_phase_lookup_throw no_phase_lookup_await
        no_phase_lookup_transaction no_phase_lookup_prims split: sum.splits option.splits)

lemma never_throws_ret: "never_throws e (ret x)"
  by (simp add: never_throws_def ret_def)

lemma never_throws_throw: "e' \<noteq> e \<Longrightarrow> never_throws e (throw e')"
  by (simp add: never_throws_def throw_def)

lemma never_throws_await:
  assumes "never_throws e m" and "\<And>x. never_throws e (f x)"
  shows "never_throws e (await m f)"
  unfolding never_throws_def
proof
  fix w
  show "fst (await m f w) \<noteq> Inl e"
  proof (cases "m w")
    case (Pair r w1)
    show ?thesis
    proof (cases r)
      case (Inl e')
      with Pair assms(1) show ?thesis
        by (auto simp: await_def never_throws_def dest: spec[of _ w])
    next
      case (Inr x)
      with Pair assms(2)[of x] show ?thesis
        by (auto simp: await_def never_throws_def)
    qed
  qed
qed

lemma never_throws_transaction:
  assumes "never_throws e m"
  shows "never_throws e (transaction m)"
  unfolding never_throws_def
proof
  fix w
  from assms have "fst (m w) \<noteq> Inl e" by (simp add: never_throws_def)
  then show "fst (transaction m w) \<noteq> Inl e"
    by (auto simp: transaction_def split: prod.splits sum.splits)
qed

lemma never_NotFoundError_prims:
  "never_throws NotFoundError (role_findUnique i)"
  "never_throws NotFoundError (resource_findFirst wh)"
  "never_throws NotFoundError (resource_create row)"
  "never_throws NotFoundError (resourcePhase_createMany rows)"
  "never_throws NotFoundError (resource_findUnique_include i)"
  by (auto simp: never_throws_def role_findUnique_def resource_findFirst_def resource_create_def
        resourcePhase_createMany_def resource_findUnique_include_def split: sum.splits)

lemma createResource_never_NotFoundError: "never_throws NotFoundError (createResource env resource)"
proof (cases "validateResource env resource")
  case (Inl e)
  then have "e = ValidationError"
    by (auto simp: validateResource_def split: if_splits)
  with Inl show ?thesis
    by (simp add: createResource_def never_throws_throw)
next
  case (Inr u)
  then show ?thesis
    unfolding createResource_def createResource_tx_def Let_def
    by (auto intro!: never_throws_ret never_throws_throw never_throws_await
          never_throws_transaction never_NotFoundError_prims split: option.splits)
qed

lemma createResource_missing_phase_fails:
  assumes "in_phases resource = Some ps" and "p \<in> set ps"
    and "find (\<lambda>x. phase_id x = p) (phases (store w)) = None"
  shows "isl (fst (createResource env resource w))"
proof (cases "createResource env resource w")
  case (Pair res w')
  show ?thesis
  proof (cases res)
    case (Inl e)
    with Pair show ?thesis by simp
  next
    case (Inr r)
    with createResource_effect[OF Pair] assms show ?thesis by auto
  qed
qed

text \<open>
  C5 fails. \<open>id_Z\<close> has the form of a uuid, so the input passes \<open>validateResource\<close>, and
  names no phase. \<open>createResource\<close> with it makes no phase lookup and no dependency check:
  the calls it makes are the role lookup, the duplicate lookup, the insert of the resource and
  the insert of the association rows, and the error is the foreign key violation of that last
  insert, not a \<open>NotFoundError\<close>. \<open>createResourcePhases\<close>, given the same phase id, does
  answer \<open>NotFoundError\<close>.
\<close>

theorem createResource_missing_phase_not_checked:
  "canonical_uuid id_Z
   \<and> validateResource (example_env ''r'') (input_of (Str ''C1'') Undefined (Some [id_Z])) = Inr ()
   \<and> createResource (example_env ''r'') (input_of (Str ''C1'') Undefined (Some [id_Z])) world_0
     = (Inl (PrismaClientKnownRequestError P2003),
        world_0\<lparr>calls := [Role_findUnique, Resource_findFirst, Resource_create, ResourcePhase_createMany]\<rparr>)
   \<and> find (\<lambda>p. phase_id p = id_Z) (phases (store world_0)) = None
   \<and> fst (createResource (example_env ''r'') (input_of (Str ''C1'') Undefined (Some [id_Z])) world_0)
       \<noteq> Inl NotFoundError
   \<and> fst (createResourcePhases (example_env ''p'') ''r'' (Some [id_Z]) (Str ''u1'') world_1)
       = Inl NotFoundError"
  by (simp add: world_1_store example_defs service_defs prisma_defs List.map_filter_def enumerate_eq_zip)

text \<open>
  What does hold of the round trip: every field \<open>createRole\<close> passes on is read back as
  given, and the legacy id of the stored role is always empty.
\<close>

lemma find_snoc_new:
  assumes "\<forall>x \<in> set xs. \<not> P x" and "P y"
  shows "find P (xs @ [y]) = Some y"
  using assms by (induction xs) auto

lemma createRole_getRole_round_trip:
  assumes "createRole env data w = (Inr r, w')"
  shows "getRole (role_id r) w' = (Inr r, logc Role_findUnique w')
         \<and> ri_name data = Str (role_name r)
         \<and> role_fullAccess r = or_false (ri_fullAccess data)
         \<and> role_selfObtainable r = or_false (ri_selfObtainable data)
         \<and> ri_createdBy data = Str (role_createdBy r)
         \<and> role_updatedBy r = to_column (ri_updatedBy data)
         \<and> role_legacyId r = None"
proof -
  let ?d = "\<lparr>rd_id = generateUUID env 0, rd_name = ri_name data,
             rd_fullAccess = or_false (ri_fullAccess data),
             rd_selfObtainable = or_false (ri_selfObtainable data),
             rd_createdBy = ri_createdBy data, rd_updatedBy = ri_updatedBy data,
             rd_legacyId = Undefined\<rparr>"
  from assms have str: "is_str (ri_name data)" "is_str (ri_createdBy data)"
    and fresh: "\<forall>x \<in> set (roles (store w)). role_id x \<noteq> role_id (role_row (now env) ?d)"
    and r: "r = role_row (now env) ?d"
    and st: "roles (store w') = roles (store w) @ [r]"
    by (auto simp: createRole_def role_create_def store_logc split: if_splits)
  from fresh r have "find (\<lambda>x. role_id x = role_id r) (roles (store w) @ [r]) = Some r"
    by (intro find_snoc_new) auto
  with st have "getRole (role_id r) w' = (Inr r, logc Role_findUnique w')"
    by (simp add: getRole_eq)
  moreover from str(1) r have "ri_name data = Str (role_name r)"
    by (cases "ri_name data") (simp_all add: role_row_def)
  moreover from str(2) r have "ri_createdBy data = Str (role_createdBy r)"
    by (cases "ri_createdBy data") (simp_all add: role_row_def)
  moreover from r have "role_fullAccess r = or_false (ri_fullAccess data)"
    "role_selfObtainable r = or_false (ri_selfObtainable data)"
    "role_updatedBy r = to_column (ri_updatedBy data)" "role_legacyId r = None"
    by (simp_all add: role_row_def)
  ultimately show ?thesis by blast
qed

text \<open>
  C7 fails on \<open>legacyId\<close>. A role created with \<open>legacyId: "42"\<close> is stored, and read back
  by \<open>getRole\<close>, with no legacy id.
\<close>

theorem createRole_drops_legacyId:
  "fst (createRole (example_env ''n'') role_input world_0)
     = Inr \<lparr>role_id = ''n'', role_name = ''Reviewer'', role_fullAccess = True,
            role_selfObtainable = False, role_created = 1000, role_createdBy = ''u1'',
            role_updated = 1000, role_updatedBy = None, role_legacyId = None\<rparr>
   \<and> fst (getRole ''n'' (snd (createRole (example_env ''n'') role_input world_0)))
     = Inr \<lparr>role_id = ''n'', role_name = ''Reviewer'', role_fullAccess = True,
            role_selfObtainable = False, role_created = 1000, role_createdBy = ''u1'',
            role_updated = 1000, role_updatedBy = None, role_legacyId = None\<rparr>
   \<and> to_column (ri_legacyId role_input) = Some ''42''"
  by (simp add: role_input_def example_defs service_defs prisma_defs)

end
